theory Spec2Isabelle
  imports Complex_Main "HOL-Library.Signed_Division" "HOL-Library.Multiset"
begin

section \<open>Grid indexing of the fast Gauss transform (fgt\_kde.h)\<close>

text \<open>
  The class \<^verbatim>\<open>FGTKde\<close> labels the boxes of a uniform grid with a single integer.
  \<^verbatim>\<open>index_t\<close> is \<^verbatim>\<open>int\<close>, a signed integer of 32 bits.  Its values are modelled
  by the \<^typ>\<open>int\<close> between \<open>INDEX_MIN\<close> and \<open>INDEX_MAX\<close>; the result of \<^verbatim>\<open>+\<close>, \<^verbatim>\<open>-\<close>
  and \<^verbatim>\<open>*\<close> on them is wrapped into that range (\<open>wrap_index\<close>), as the machine
  does when the exact result does not fit (the language leaves that case
  undefined).  The C++ operators \<^verbatim>\<open>/\<close> and \<^verbatim>\<open>%\<close>, which truncate towards zero and
  stay in range on the operands met here, are \<open>sdiv\<close> and \<open>smod\<close>.  A \<^verbatim>\<open>double\<close> is
  modelled by a \<^typ>\<open>real\<close>, and its conversion to \<^verbatim>\<open>index_t\<close> (\<open>to_index_t\<close>) drops
  the fraction; for a value outside the range of \<^verbatim>\<open>index_t\<close> the language leaves
  the conversion undefined and the machine gives \<open>INDEX_MIN\<close>.  A \<^verbatim>\<open>std::vector<index_t>\<close> is an
  \<^typ>\<open>int list\<close> whose length is the vector's \<^verbatim>\<open>size()\<close>; a loop counter that runs
  from 0 to a \<^verbatim>\<open>size()\<close> is a \<^typ>\<open>nat\<close>.  Reading \<^verbatim>\<open>v[i]\<close> at or beyond
  \<^verbatim>\<open>size()\<close> is undefined behaviour in the source; in the model it is
  \<^term>\<open>v ! i\<close>, about which nothing is known, and every theorem below that
  reads a vector states the sizes it needs.  A source name that ends in an
  underscore loses it (\<^verbatim>\<open>Assign_\<close> is \<open>Assign\<close>), and the variable \<^verbatim>\<open>dim\<close>
  is written \<open>dim'\<close>.
\<close>

definition INDEX_MAX :: int where
  "INDEX_MAX = 2 ^ 31 - 1"

definition INDEX_MIN :: int where
  "INDEX_MIN = - (2 ^ 31)"

definition wrap_index :: "int \<Rightarrow> int" where
  "wrap_index x = (x + 2 ^ 31) mod 2 ^ 32 - 2 ^ 31"

definition to_index_t :: "real \<Rightarrow> int" where
  "to_index_t x =
     (let t = (if 0 \<le> x then \<lfloor>x\<rfloor> else \<lceil>x\<rceil>)
      in if INDEX_MIN \<le> t \<and> t \<le> INDEX_MAX then t else INDEX_MIN)"

text \<open>\<^verbatim>\<open>pow(b, e)\<close> on an integer base and an integer exponent, both converted to
  \<^verbatim>\<open>double\<close>.\<close>

definition pow_index :: "int \<Rightarrow> int \<Rightarrow> real" where
  "pow_index b e = (if 0 \<le> e then of_int b ^ nat e else 1 / of_int b ^ nat (- e))"

subsection \<open>Encoding and decoding of box ids\<close>

text \<open>\<^verbatim>\<open>MultiDimIndexInSingleArray_(coords, n)\<close>: the inner loop multiplies
  \<^verbatim>\<open>n[0] ... n[i-1]\<close>, the outer loop adds \<^verbatim>\<open>coords[i] * prod\<close>.\<close>

definition MultiDimIndexInSingleArray :: "int list \<Rightarrow> int list \<Rightarrow> int" where
  "MultiDimIndexInSingleArray coords n =
     fold (\<lambda>i sum.
             let prod = fold (\<lambda>j prod. wrap_index (prod * n ! j)) [0..<i] 1
             in wrap_index (sum + wrap_index (coords ! i * prod)))
          [0..<length coords] 0"

text \<open>\<^verbatim>\<open>SingleDimIndexInMultiArray_(n, index, coords)\<close>: \<^verbatim>\<open>index\<close> is passed by
  value and divided down, \<^verbatim>\<open>coords\<close> is passed by reference and overwritten at the
  positions below its \<^verbatim>\<open>size()\<close>.  The model returns the vector after the call.\<close>

definition SingleDimIndexInMultiArray :: "int list \<Rightarrow> int \<Rightarrow> int list \<Rightarrow> int list" where
  "SingleDimIndexInMultiArray n index coords =
     snd (fold (\<lambda>i (index, coords).
                  let this_coord = index smod n ! i
                  in (index sdiv n ! i, coords[i := this_coord]))
               [0..<length coords] (index, coords))"

subsection \<open>Neighbouring boxes\<close>

text \<open>\<^verbatim>\<open>IsOngrid_(old_coords, delta, new_coords, nsides)\<close> takes both vectors by
  reference.  Its only caller passes the same vector for \<^verbatim>\<open>old_coords\<close> and
  \<^verbatim>\<open>new_coords\<close>, so a write to \<^verbatim>\<open>new_coords[d]\<close> is seen through \<^verbatim>\<open>old_coords\<close>:
  the flag \<open>alias\<close> says whether the two arguments are one object.  The loop bound
  \<^verbatim>\<open>dim\<close> is read once, before the loop.  The result is the returned flag and the
  vector \<^verbatim>\<open>new_coords\<close> after the call (on the early \<^verbatim>\<open>return 0\<close> the positions
  already written stay written).\<close>

fun IsOngrid_loop ::
  "bool \<Rightarrow> nat list \<Rightarrow> int list \<Rightarrow> int \<Rightarrow> int list \<Rightarrow> int list \<Rightarrow> int \<times> int list" where
  "IsOngrid_loop alias [] old_coords delta new_coords nsides = (1, new_coords)"
| "IsOngrid_loop alias (d # ds) old_coords delta new_coords nsides =
     (let new_val = wrap_index (old_coords ! d + delta)
      in if new_val < 0 \<or> new_val \<ge> nsides ! d then (0, new_coords)
         else let new_coords' = new_coords[d := new_val]
              in IsOngrid_loop alias ds (if alias then new_coords' else old_coords)
                   delta new_coords' nsides)"

definition IsOngrid ::
  "bool \<Rightarrow> int list \<Rightarrow> int \<Rightarrow> int list \<Rightarrow> int list \<Rightarrow> int \<times> int list" where
  "IsOngrid alias old_coords delta new_coords nsides =
     (let dim' = length old_coords
      in IsOngrid_loop alias [0..<dim'] old_coords delta new_coords nsides)"

text \<open>\<^verbatim>\<open>std::vector::reserve(k)\<close> allocates capacity for \<open>k\<close> elements; it changes
  neither \<^verbatim>\<open>size()\<close> nor the elements (only \<^verbatim>\<open>resize\<close> or \<^verbatim>\<open>push_back\<close> do).\<close>

definition reserve :: "nat \<Rightarrow> 'a list \<Rightarrow> 'a list" where
  "reserve k v = v"

text \<open>\<^verbatim>\<open>MakeNeighbors_(ibox, nsides, kdis, ret)\<close>.  The local vectors \<^verbatim>\<open>coords\<close>,
  \<^verbatim>\<open>dummy_n\<close>, \<^verbatim>\<open>all_ones\<close>, \<^verbatim>\<open>delta\<close> and \<^verbatim>\<open>new_coords\<close> are default-constructed
  (empty) and then only \<^verbatim>\<open>reserve\<close>d.  Every loop over them is bounded by
  \<^verbatim>\<open>coords.size()\<close>.  The result is \<^verbatim>\<open>ret\<close> after the call.\<close>

definition MakeNeighbors :: "int \<Rightarrow> int list \<Rightarrow> int \<Rightarrow> int list \<Rightarrow> int list" where
  "MakeNeighbors ibox nsides kdis ret =
     (let coords = reserve (length nsides) [];
          coords = SingleDimIndexInMultiArray nsides ibox coords;
          dummy_n = reserve (length coords) [];
          all_ones = reserve (length coords) [];
          (dummy_n, all_ones) =
             fold (\<lambda>i (dummy_n, all_ones).
                     (dummy_n[i := wrap_index (wrap_index (2 * kdis) + 1)], all_ones[i := kdis]))
                  [0..<length coords] (dummy_n, all_ones);
          num_neighbors = wrap_index (wrap_index (2 * kdis) + 1);
          num_neighbors = to_index_t (pow_index num_neighbors (int (length coords)));
          delta = reserve (length coords) [];
          new_coords = reserve (length coords) []
      in fst (fold (\<lambda>i (ret, delta, new_coords).
                      let delta = SingleDimIndexInMultiArray dummy_n i delta;
                          new_coords = fold (\<lambda>j new_coords.
                                               new_coords[j := wrap_index (coords ! j + delta ! j)])
                                            [0..<length coords] new_coords;
                          (ongrid, new_coords) =
                            IsOngrid True new_coords (wrap_index (- kdis)) new_coords nsides
                      in (if ongrid \<noteq> 0
                          then ret @ [MultiDimIndexInSingleArray new_coords nsides]
                          else ret, delta, new_coords))
                   (map int [0..<nat num_neighbors]) (ret, delta, new_coords)))"

text \<open>The neighbourhood the specification describes, in its own words: the valid box
  ids whose per-axis grid coordinates differ from those of the given box by at most
  \<open>kdis\<close> on every axis and lie in \<open>[0, nsides[d])\<close>.  The coordinates of a box are
  its decoding into a vector of the grid's dimension.\<close>

definition box_coords :: "int list \<Rightarrow> int \<Rightarrow> int list" where
  "box_coords nsides ibox =
     SingleDimIndexInMultiArray nsides ibox (replicate (length nsides) 0)"

definition spec_neighbors :: "int \<Rightarrow> int list \<Rightarrow> int \<Rightarrow> int set" where
  "spec_neighbors ibox nsides kdis =
     {b \<in> {0..<prod_list nsides}.
        \<forall>d < length nsides. \<bar>box_coords nsides b ! d - box_coords nsides ibox ! d\<bar> \<le> kdis}"

text \<open>Auxiliary functions for the proofs: the mixed-radix code written by recursion
  on the list of box counts (least significant axis first), and the set of
  coordinate tuples of a grid.\<close>

fun radix_enc :: "int list \<Rightarrow> int list \<Rightarrow> int" where
  "radix_enc (c # cs) (n # ns) = c + n * radix_enc cs ns"
| "radix_enc _ _ = 0"

fun radix_dec :: "int list \<Rightarrow> int \<Rightarrow> int list" where
  "radix_dec [] idx = []"
| "radix_dec (n # ns) idx = idx mod n # radix_dec ns (idx div n)"

definition grid_tuples :: "int list \<Rightarrow> int list set" where
  "grid_tuples n = {cs. length cs = length n \<and> (\<forall>d<length n. 0 \<le> cs ! d \<and> cs ! d < n ! d)}"

section \<open>The data of the class FGTKde\<close>

text \<open>
  A \<^verbatim>\<open>double\<close> is modelled by a \<^typ>\<open>real\<close>: sums, products, quotients, \<^verbatim>\<open>exp\<close>,
  \<^verbatim>\<open>sqrt\<close> and \<^verbatim>\<open>floor\<close> are the exact ones, and no statement below is about rounding.
  An \<^verbatim>\<open>arma::mat\<close> is its number of rows, its number of columns and its elements
  in column-major order, as Armadillo stores them; an \<^verbatim>\<open>arma::vec\<close> is the list of
  its elements.
\<close>

record mat =
  n_rows :: nat
  n_cols :: nat
  mem :: "real list"

definition elem :: "mat \<Rightarrow> nat \<Rightarrow> nat \<Rightarrow> real" where
  "elem M i j = mem M ! (i + j * n_rows M)"

definition col :: "mat \<Rightarrow> nat \<Rightarrow> real list" where
  "col M j = take (n_rows M) (drop (j * n_rows M) (mem M))"

text \<open>Modelled from the spec: the class \<^verbatim>\<open>GaussianKernel\<close> is declared outside this
  file.  \<open>Kernel: isotropic Gaussian with bandwidth h>0; derives bandwidth_sq = h\<^sup>2
  and a dimension-dependent normalization constant.\<close>  The object keeps the squared
  bandwidth; the normalization constant \<^verbatim>\<open>CalcNormConstant\<close> is a parameter of the
  functions that use it.\<close>

record GaussianKernel =
  bandwidth_sq :: real

definition GaussianKernel_Init :: "real \<Rightarrow> GaussianKernel" where
  "GaussianKernel_Init bandwidth_in = \<lparr>bandwidth_sq = bandwidth_in * bandwidth_in\<rparr>"

text \<open>The tables of \<^verbatim>\<open>MultSeriesExpansionAux\<close> (declared outside this file) are
  parameters: the inverse multi-index factorials, the signed ones, and the
  multi-index at each position.\<close>

record MultSeriesExpansionAux =
  inv_multiindex_factorials :: "real list"
  neg_inv_multiindex_factorials :: "real list"
  multiindex :: "nat \<Rightarrow> nat list"

record FGTKde =
  qset :: mat
  rset :: mat
  kernel :: GaussianKernel
  densities :: "real list"
  tau :: real
  msea :: MultSeriesExpansionAux

section \<open>Assignment of the points to the boxes\<close>

text \<open>The body of the loops at lines 342-355 and 358-371 of \<^verbatim>\<open>Assign_\<close>, which are
  the same code on \<^verbatim>\<open>rset_\<close> and on \<^verbatim>\<open>qset_\<close>: the box number of column \<open>r\<close> of the
  point set, folded from the last axis down to the first.  (On an axis of side
  length 0 the quotient of the source is infinite or not a number and its cast is
  not defined; the model's quotient is 0.  Nothing below depends on the value of
  \<^verbatim>\<open>binnum\<close> before it is clamped.)\<close>

definition Assign_boxnum ::
  "mat \<Rightarrow> nat \<Rightarrow> nat \<Rightarrow> int list \<Rightarrow> real list \<Rightarrow> real list \<Rightarrow> int" where
  "Assign_boxnum pset dim' r nsides sidelengths mincoords =
     fold (\<lambda>di boxnum.
             let nside = nsides ! di;
                 h = sidelengths ! di;
                 binnum = to_index_t (of_int \<lfloor>(elem pset di r - mincoords ! di) / h\<rfloor>);
                 binnum = max 0 (min binnum (wrap_index (nside - 1)))
             in wrap_index (wrap_index (boxnum * nside) + binnum))
          (rev [0..<dim']) 0"

text \<open>The body of the loop at lines 374-390: \<^verbatim>\<open>box_center\<close> is constructed from
  \<^verbatim>\<open>center.col(r)\<close>, which copies the column into a vector of its own, and the
  loop writes to that vector.  The function gives the vector at the end of the
  loop body, where it goes out of scope.\<close>

definition Assign_box_center ::
  "mat \<Rightarrow> nat \<Rightarrow> int \<Rightarrow> int \<Rightarrow> int list \<Rightarrow> real list \<Rightarrow> real list \<Rightarrow> real list" where
  "Assign_box_center center dim' nallbx r nsides sidelengths mincoords =
     (let sf = nallbx; ind = r; box_center = col center (nat r)
      in snd (snd (fold (\<lambda>di (sf, ind, box_center).
                           let nside = nsides ! di;
                               h = sidelengths ! di;
                               sf = sf sdiv nside;
                               rem = ind smod sf;
                               ind = ind sdiv sf;
                               box_center = box_center[di := mincoords ! di + (of_int ind + 0.5) * h];
                               ind = rem
                           in (sf, ind, box_center))
                        (rev [0..<dim']) (sf, ind, box_center))))"

text \<open>\<^verbatim>\<open>Assign_\<close>.  The three containers are passed by reference; the result is their
  contents after the call.  \<^verbatim>\<open>v[boxnum].push_back(r)\<close> appends to the list at
  position \<open>boxnum\<close>; at a position that is negative or not below the size of \<open>v\<close>
  the source has undefined behaviour and the model leaves \<open>v\<close> as it is.\<close>

definition Assign ::
  "FGTKde \<Rightarrow> int \<Rightarrow> int list \<Rightarrow> real list \<Rightarrow> real list \<Rightarrow> mat \<Rightarrow> int list list \<Rightarrow> int list list
   \<Rightarrow> mat \<times> int list list \<times> int list list" where
  "Assign s nallbx nsides sidelengths mincoords center queries_assigned references_assigned =
     (let num_query_rows = n_cols (qset s);
          num_ref_rows = n_cols (rset s);
          dim' = n_rows (qset s);
          references_assigned =
            fold (\<lambda>r references_assigned.
                    let boxnum = Assign_boxnum (rset s) dim' r nsides sidelengths mincoords
                    in if 0 \<le> boxnum \<and> nat boxnum < length references_assigned
                       then references_assigned
                              [nat boxnum := references_assigned ! nat boxnum @ [int r]]
                       else references_assigned)
                 [0..<num_ref_rows] references_assigned;
          queries_assigned =
            fold (\<lambda>r queries_assigned.
                    let boxnum = Assign_boxnum (qset s) dim' r nsides sidelengths mincoords
                    in if 0 \<le> boxnum \<and> nat boxnum < length queries_assigned
                       then queries_assigned
                              [nat boxnum := queries_assigned ! nat boxnum @ [int r]]
                       else queries_assigned)
                 [0..<num_query_rows] queries_assigned;
          box_centers =
            map (\<lambda>r. Assign_box_center center dim' nallbx (int r) nsides sidelengths mincoords)
                [0..<nat nallbx]
      in (center, queries_assigned, references_assigned))"

section \<open>Coefficient storage and the expansion routines\<close>

text \<open>
  The matrices of far-field and local coefficients are created by \<^verbatim>\<open>Compute\<close> and
  passed down by reference (\<^verbatim>\<open>arma::mat&\<close>).  Whether a routine changes them
  depends on which object each of its writes goes to, so the objects live in an
  explicit store: a map from addresses to matrices (an \<^verbatim>\<open>arma::vec\<close> is a matrix
  of one column) and the next free address.  A reference parameter is an address.

  \<^verbatim>\<open>arma::vec x = M.col(j)\<close> constructs a new vector from the column view
  \<^verbatim>\<open>M.col(j)\<close>: the constructor allocates memory of its own and copies the
  elements of the column into it.  (Only \<^verbatim>\<open>unsafe_col\<close> gives a vector that uses
  the memory of the matrix.)  \<^verbatim>\<open>x[i]\<close> then reads and writes the new object.
\<close>

record store =
  heap :: "nat \<Rightarrow> mat"
  brk :: nat

definition vec_from_col :: "nat \<Rightarrow> nat \<Rightarrow> store \<Rightarrow> nat \<times> store" where
  "vec_from_col M j st =
     (brk st,
      st\<lparr>heap := (heap st)(brk st := \<lparr>n_rows = n_rows (heap st M), n_cols = 1,
                                       mem = col (heap st M) j\<rparr>),
         brk := Suc (brk st)\<rparr>)"

definition vec_get :: "store \<Rightarrow> nat \<Rightarrow> nat \<Rightarrow> real" where
  "vec_get st a i = mem (heap st a) ! i"

definition vec_set :: "nat \<Rightarrow> nat \<Rightarrow> real \<Rightarrow> store \<Rightarrow> store" where
  "vec_set a i v st = st\<lparr>heap := (heap st)(a := (heap st a)\<lparr>mem := (mem (heap st a))[i := v]\<rparr>)\<rparr>"

text \<open>Matrices and vectors that are local to one call and never bound to another
  object are plain values.  \<^verbatim>\<open>arma::mat M(r, c)\<close> and \<^verbatim>\<open>arma::vec v(n)\<close> do not
  initialise their elements: these are \<^term>\<open>undefined :: real\<close> until written.\<close>

definition new_mat :: "nat \<Rightarrow> nat \<Rightarrow> mat" where
  "new_mat r c = \<lparr>n_rows = r, n_cols = c, mem = replicate (r * c) undefined\<rparr>"

definition new_vec :: "nat \<Rightarrow> real list" where
  "new_vec n = replicate n undefined"

definition mat_set :: "mat \<Rightarrow> nat \<Rightarrow> nat \<Rightarrow> real \<Rightarrow> mat" where
  "mat_set M i j v = M\<lparr>mem := (mem M)[i + j * n_rows M := v]\<rparr>"

text \<open>The truncation order \<^verbatim>\<open>p_alpha\<close> and the number of coefficients
  \<^verbatim>\<open>totalnumcoeffs\<close> are counts and are modelled by \<^typ>\<open>nat\<close>, as are the positions
  in a coefficient vector; \<^verbatim>\<open>/\<close> and \<^verbatim>\<open>%\<close> on them are \<open>div\<close> and \<open>mod\<close>.

  Row \<open>d\<close> of the Hermite table, filled by the same code in
  \<^verbatim>\<open>TranslateMultipoleToLocal_\<close> (with \<^verbatim>\<open>limit\<close>), \<^verbatim>\<open>DirectLocalAccumulation_\<close> and
  \<^verbatim>\<open>EvaluateMultipoleExpansion_\<close> (with \<^verbatim>\<open>limit2\<close>).\<close>

definition hermite_row :: "mat \<Rightarrow> nat \<Rightarrow> real \<Rightarrow> nat \<Rightarrow> int \<Rightarrow> mat" where
  "hermite_row hermite_map d coord_div_band p_alpha limit =
     (let d2 = 2 * coord_div_band;
          facj = exp (- coord_div_band * coord_div_band);
          hermite_map = mat_set hermite_map d 0 facj
      in if p_alpha > 1
         then let hermite_map = mat_set hermite_map d 1 (d2 * facj)
              in fold (\<lambda>k hermite_map.
                         let k2 = k * 2
                         in mat_set hermite_map d (k + 1)
                              (d2 * elem hermite_map d k - real k2 * elem hermite_map d (k - 1)))
                      [1..<nat limit] hermite_map
         else hermite_map)"

subsection \<open>Far-field moments of a box\<close>

text \<open>The three nested loops at lines 560-572 of \<^verbatim>\<open>ComputeMultipoleCoeffs_\<close>, from the
  innermost out.  The loops stand under \<^verbatim>\<open>if(p_alpha > 1)\<close> and the outermost one runs
  while \<^verbatim>\<open>step >= 1\<close>; the model repeats these two tests in the conditions of the
  loops, which makes each function total.\<close>

function CMC_inner :: "nat \<Rightarrow> nat \<Rightarrow> real \<Rightarrow> nat \<Rightarrow> real list \<Rightarrow> nat \<times> real list" where
  "CMC_inner limit step x i tmp =
     (if i < limit \<and> 1 \<le> step
      then CMC_inner limit step x (i + step) (tmp[i := tmp ! (i - step) * x])
      else (i, tmp))"
  by pat_completeness auto
termination
  by (relation "measure (\<lambda>(limit, step, x, i, tmp). limit - i)") auto

function CMC_mid :: "nat \<Rightarrow> nat \<Rightarrow> nat \<Rightarrow> real \<Rightarrow> nat \<Rightarrow> real list \<Rightarrow> real list" where
  "CMC_mid totalnumcoeffs boundary step x i tmp =
     (if i < totalnumcoeffs \<and> 1 \<le> step
      then let limit = i + boundary;
               r = CMC_inner limit step x (i + step) tmp
           in CMC_mid totalnumcoeffs boundary step x (fst r) (snd r)
      else tmp)"
  by pat_completeness auto
termination
proof (relation "measure (\<lambda>(totalnumcoeffs, boundary, step, x, i, tmp). totalnumcoeffs - i)")
  show "wf (measure (\<lambda>(totalnumcoeffs, boundary, step, x, i, tmp). totalnumcoeffs - i))"
    by simp
next
  fix totalnumcoeffs boundary step :: nat and x :: real and i :: nat and tmp :: "real list"
    and limit r
  assume a: "i < totalnumcoeffs \<and> 1 \<le> step" and l: "limit = i + boundary"
    and r: "r = CMC_inner limit step x (i + step) tmp"
  have ge: "i' \<le> fst (CMC_inner limit' step' x' i' tmp')" for limit' step' x' i' tmp'
  proof (induction limit' step' x' i' tmp' rule: CMC_inner.induct)
    case (1 limit step x i tmp)
    show ?case
    proof (cases "i < limit \<and> 1 \<le> step")
      case True
      then have "i + step \<le> fst (CMC_inner limit step x i tmp)"
        using "1.IH" by simp
      then show ?thesis by simp
    next
      case False
      then show ?thesis by simp
    qed
  qed
  have "i + step \<le> fst r" unfolding r by (rule ge)
  then show "((totalnumcoeffs, boundary, step, x, fst r, snd r),
              (totalnumcoeffs, boundary, step, x, i, tmp))
             \<in> measure (\<lambda>(totalnumcoeffs, boundary, step, x, i, tmp). totalnumcoeffs - i)"
    using a by (simp add: case_prod_unfold) arith
qed

function CMC_outer ::
  "nat \<Rightarrow> nat \<Rightarrow> nat \<Rightarrow> nat \<Rightarrow> real list \<Rightarrow> nat \<Rightarrow> real list \<Rightarrow> real list" where
  "CMC_outer totalnumcoeffs p_alpha boundary step x_r j tmp =
     (if 1 \<le> step \<and> 1 < p_alpha
      then CMC_outer totalnumcoeffs p_alpha (boundary div p_alpha) (step div p_alpha) x_r (j + 1)
             (CMC_mid totalnumcoeffs boundary step (x_r ! j) 0 tmp)
      else tmp)"
  by pat_completeness auto
termination
  by (relation "measure (\<lambda>(totalnumcoeffs, p_alpha, boundary, step, x_r, j, tmp). step)") auto

text \<open>\<^verbatim>\<open>ComputeMultipoleCoeffs_\<close> returns at one of two places: at line 532, when the
  first element of \<^verbatim>\<open>A_k\<close> is not zero, or at the end, after computing.\<close>

datatype returned = Cached | Computed

text \<open>The body of the loop over the reference points of the box (lines 550-578).
  \<^verbatim>\<open>x_r\<close> and \<^verbatim>\<open>tmp\<close> are declared before the loop and keep their elements from
  one round to the next; \<^verbatim>\<open>A_k\<close> is the address of the vector.\<close>

definition CMC_row ::
  "FGTKde \<Rightarrow> nat \<Rightarrow> nat \<Rightarrow> nat \<Rightarrow> nat \<Rightarrow> real \<Rightarrow> real list \<Rightarrow> int list \<Rightarrow> nat
   \<Rightarrow> real list \<times> real list \<times> store \<Rightarrow> real list \<times> real list \<times> store" where
  "CMC_row s A_k dim' p_alpha totalnumcoeffs bw_times_sqrt_two x_R rows r =
     (\<lambda>(x_r, tmp, st).
        let row_num = nat (rows ! r);
            x_r = fold (\<lambda>i x_r. x_r[i := (elem (rset s) i row_num - x_R ! i) / bw_times_sqrt_two])
                       [0..<dim'] x_r;
            tmp = tmp[0 := 1];
            tmp = CMC_outer totalnumcoeffs p_alpha totalnumcoeffs (totalnumcoeffs div p_alpha)
                    x_r 0 tmp;
            st = fold (\<lambda>i st. vec_set A_k i (vec_get st A_k i + tmp ! i) st)
                      [1..<totalnumcoeffs] st
        in (x_r, tmp, st))"

text \<open>\<^verbatim>\<open>ComputeMultipoleCoeffs_(mcoeffs, dim, p_alpha, totalnumcoeffs, ref_box_num,
  bwsqd_two, rows, x_R)\<close>.  \<open>mcoeffs\<close> is the address of the matrix.  The result is
  the place of return, the address of the local vector \<^verbatim>\<open>A_k\<close> (so that its last
  contents can be inspected; the object is destroyed on return) and the store.\<close>

definition ComputeMultipoleCoeffs ::
  "FGTKde \<Rightarrow> nat \<Rightarrow> nat \<Rightarrow> nat \<Rightarrow> nat \<Rightarrow> nat \<Rightarrow> real \<Rightarrow> int list \<Rightarrow> real list \<Rightarrow> store
   \<Rightarrow> returned \<times> nat \<times> store" where
  "ComputeMultipoleCoeffs s mcoeffs dim' p_alpha totalnumcoeffs ref_box_num bwsqd_two rows x_R st =
     (let (A_k, st) = vec_from_col mcoeffs ref_box_num st;
          bw_times_sqrt_two = sqrt bwsqd_two
      in if vec_get st A_k 0 \<noteq> 0 then (Cached, A_k, st)
         else
           let C_k = inv_multiindex_factorials (msea s);
               tmp = new_vec totalnumcoeffs;
               x_r = new_vec dim';
               num_rows = length rows;
               st = vec_set A_k 0 (real num_rows) st;
               st = fold (\<lambda>i st. vec_set A_k i 0 st) [1..<totalnumcoeffs] st;
               (x_r, tmp, st) =
                 (if p_alpha > 1
                  then fold (CMC_row s A_k dim' p_alpha totalnumcoeffs bw_times_sqrt_two x_R rows)
                            [0..<num_rows] (x_r, tmp, st)
                  else (x_r, tmp, st));
               st = fold (\<lambda>r st. vec_set A_k r (vec_get st A_k r * C_k ! r) st)
                         [1..<totalnumcoeffs] st
           in (Computed, A_k, st))"

subsection \<open>Direct accumulation into a local expansion\<close>

text \<open>The three nested loops at lines 658-674 of \<^verbatim>\<open>DirectLocalAccumulation_\<close>, from the
  innermost out, total in the same way as the loops above.\<close>

function DLA_inner ::
  "mat \<Rightarrow> nat \<Rightarrow> nat \<Rightarrow> nat \<Rightarrow> nat \<Rightarrow> nat \<Rightarrow> nat \<Rightarrow> real list \<Rightarrow> nat \<times> real list" where
  "DLA_inner hermite_map d first limit step i j arrtmp =
     (if i < limit \<and> 1 \<le> step
      then DLA_inner hermite_map d first limit step (i + step) (j + 1)
             (arrtmp[i := arrtmp ! first * elem hermite_map d j])
      else (i, arrtmp))"
  by pat_completeness auto
termination
  by (relation "measure (\<lambda>(hermite_map, d, first, limit, step, i, j, arrtmp). limit - i)") auto

function DLA_mid ::
  "nat \<Rightarrow> nat \<Rightarrow> nat \<Rightarrow> mat \<Rightarrow> nat \<Rightarrow> nat \<Rightarrow> real list \<Rightarrow> real list" where
  "DLA_mid totalnumcoeffs boundary step hermite_map d i arrtmp =
     (if i < totalnumcoeffs \<and> 1 \<le> step
      then let limit = i + boundary;
               first = i;
               r = DLA_inner hermite_map d first limit step (i + step) 1 arrtmp;
               arrtmp = (snd r)[first := snd r ! first * elem hermite_map d 0]
           in DLA_mid totalnumcoeffs boundary step hermite_map d (fst r) arrtmp
      else arrtmp)"
  by pat_completeness auto
termination
proof (relation "measure (\<lambda>(totalnumcoeffs, boundary, step, hermite_map, d, i, arrtmp).
                            totalnumcoeffs - i)")
  show "wf (measure (\<lambda>(totalnumcoeffs, boundary, step, hermite_map, d, i, arrtmp).
                       totalnumcoeffs - i))"
    by simp
next
  fix totalnumcoeffs boundary step :: nat and hermite_map :: mat and d i :: nat
    and arrtmp :: "real list" and limit first r arrtmp'
  assume a: "i < totalnumcoeffs \<and> 1 \<le> step"
    and r: "r = DLA_inner hermite_map d first limit step (i + step) 1 arrtmp"
  have ge: "i' \<le> fst (DLA_inner hm d' first' limit' step' i' j' a')"
    for hm d' first' limit' step' i' j' a'
  proof (induction hm d' first' limit' step' i' j' a' rule: DLA_inner.induct)
    case (1 hermite_map d first limit step i j arrtmp)
    show ?case
    proof (cases "i < limit \<and> 1 \<le> step")
      case True
      then have "i + step \<le> fst (DLA_inner hermite_map d first limit step i j arrtmp)"
        using "1.IH" by simp
      then show ?thesis by simp
    next
      case False
      then show ?thesis by simp
    qed
  qed
  have "i + step \<le> fst r" unfolding r by (rule ge)
  then show "((totalnumcoeffs, boundary, step, hermite_map, d, fst r, arrtmp'),
              (totalnumcoeffs, boundary, step, hermite_map, d, i, arrtmp))
             \<in> measure (\<lambda>(totalnumcoeffs, boundary, step, hermite_map, d, i, arrtmp).
                           totalnumcoeffs - i)"
    using a by (simp add: case_prod_unfold) arith
qed

function DLA_outer ::
  "nat \<Rightarrow> nat \<Rightarrow> nat \<Rightarrow> nat \<Rightarrow> mat \<Rightarrow> nat \<Rightarrow> real list \<Rightarrow> real list" where
  "DLA_outer totalnumcoeffs p_alpha boundary step hermite_map d arrtmp =
     (if 1 \<le> step \<and> 1 < p_alpha
      then DLA_outer totalnumcoeffs p_alpha (boundary div p_alpha) (step div p_alpha)
             hermite_map (d + 1)
             (DLA_mid totalnumcoeffs boundary step hermite_map d 0 arrtmp)
      else arrtmp)"
  by pat_completeness auto
termination
  by (relation "measure (\<lambda>(totalnumcoeffs, p_alpha, boundary, step, hermite_map, d, arrtmp). step)")
     auto

text \<open>The body of the loop over the reference points (lines 621-685).  \<^verbatim>\<open>arr\<close> is the
  address of the vector that line 618 constructs.\<close>

definition DLA_row ::
  "FGTKde \<Rightarrow> nat \<Rightarrow> nat \<Rightarrow> nat \<Rightarrow> nat \<Rightarrow> int \<Rightarrow> real \<Rightarrow> real list \<Rightarrow> real list \<Rightarrow> int list \<Rightarrow> nat
   \<Rightarrow> real list \<times> mat \<times> real list \<times> store \<Rightarrow> real list \<times> mat \<times> real list \<times> store" where
  "DLA_row s arr dim' p_alpha totalnumcoeffs limit2 bandwidth neg_inv_multiindex_factorials'
       dest_hrcentroid rows r =
     (\<lambda>(x_r_minus_x_Q, hermite_map, arrtmp, st).
        let row_num = nat (rows ! r);
            x_r_minus_x_Q =
              fold (\<lambda>d x. x[d := dest_hrcentroid ! d - elem (rset s) d row_num])
                   [0..<dim'] x_r_minus_x_Q;
            hermite_map =
              fold (\<lambda>d hermite_map.
                      let coord_div_band = x_r_minus_x_Q ! d / bandwidth
                      in hermite_row hermite_map d coord_div_band p_alpha limit2)
                   [0..<dim'] hermite_map;
            arrtmp = arrtmp[0 := 1];
            arrtmp =
              (if p_alpha > 1
               then DLA_outer totalnumcoeffs p_alpha totalnumcoeffs (totalnumcoeffs div p_alpha)
                      hermite_map 0 arrtmp
               else fold (\<lambda>d arrtmp. arrtmp[0 := arrtmp ! 0 * elem hermite_map d 0])
                         [0..<dim'] arrtmp);
            st = fold (\<lambda>j st. vec_set arr j
                                 (vec_get st arr j
                                    + neg_inv_multiindex_factorials' ! j * arrtmp ! j) st)
                      [0..<totalnumcoeffs] st
        in (x_r_minus_x_Q, hermite_map, arrtmp, st))"

text \<open>\<^verbatim>\<open>DirectLocalAccumulation_(rows, query_box_num, locexps, delta, dest_hrcentroid,
  p_alpha, totalnumcoeffs)\<close>.  \<open>locexps\<close> is the address of the matrix.  The result is
  the address of the local vector \<^verbatim>\<open>arr\<close> and the store.\<close>

definition DirectLocalAccumulation ::
  "FGTKde \<Rightarrow> int list \<Rightarrow> nat \<Rightarrow> nat \<Rightarrow> real \<Rightarrow> real list \<Rightarrow> nat \<Rightarrow> nat \<Rightarrow> store \<Rightarrow> nat \<times> store" where
  "DirectLocalAccumulation s rows query_box_num locexps delta dest_hrcentroid p_alpha
       totalnumcoeffs st =
     (let num_rows = length rows;
          dim' = n_rows (rset s);
          limit2 = int p_alpha - 1;
          hermite_map = new_mat dim' p_alpha;
          arrtmp = new_vec totalnumcoeffs;
          x_r_minus_x_Q = new_vec dim';
          bandwidth = sqrt delta;
          neg_inv_multiindex_factorials' = neg_inv_multiindex_factorials (msea s);
          (arr, st) = vec_from_col locexps query_box_num st;
          (x_r_minus_x_Q, hermite_map, arrtmp, st) =
            fold (DLA_row s arr dim' p_alpha totalnumcoeffs limit2 bandwidth
                    neg_inv_multiindex_factorials' dest_hrcentroid rows)
                 [0..<num_rows] (x_r_minus_x_Q, hermite_map, arrtmp, st)
      in (arr, st))"

subsection \<open>Translation of far-field moments into a local expansion\<close>

text \<open>One round of the loop at lines 470-497 of \<^verbatim>\<open>TranslateMultipoleToLocal_\<close> (the
  loop over \<^verbatim>\<open>j\<close> with its inner loop over \<^verbatim>\<open>k\<close>), and the loop itself, which runs
  under \<^verbatim>\<open>if(p_alpha > 1)\<close> while \<^verbatim>\<open>step >= 1\<close>.\<close>

definition TML_pass :: "FGTKde \<Rightarrow> nat \<Rightarrow> nat \<Rightarrow> nat \<Rightarrow> nat \<Rightarrow> nat \<Rightarrow> mat \<Rightarrow> mat \<Rightarrow> mat" where
  "TML_pass s totalnumcoeffs p_alpha boundary step d hermite_map arrtmp =
     (let boundary2 = 0
      in snd (fold (\<lambda>j (boundary2, arrtmp).
                      let mapping = multiindex (msea s) j;
                          boundary2 = (if j mod boundary = 0 then boundary2 + boundary
                                       else boundary2);
                          arrtmp =
                            fold (\<lambda>k arrtmp.
                                    let jump = (j + step * k) mod boundary2;
                                        jump = (if jump < boundary2 - boundary
                                                then jump + (boundary2 - boundary) else jump);
                                        mapping2 = multiindex (msea s) jump
                                    in mat_set arrtmp d j
                                         (elem arrtmp d j
                                            + elem arrtmp (d - 1) jump
                                              * elem hermite_map d (mapping2 ! d + mapping ! d)))
                                 [0..<p_alpha] arrtmp
                      in (boundary2, arrtmp))
                   [0..<totalnumcoeffs] (boundary2, arrtmp)))"

function TML_outer ::
  "FGTKde \<Rightarrow> nat \<Rightarrow> nat \<Rightarrow> nat \<Rightarrow> nat \<Rightarrow> nat \<Rightarrow> mat \<Rightarrow> mat \<Rightarrow> mat" where
  "TML_outer s totalnumcoeffs p_alpha boundary step d hermite_map arrtmp =
     (if 1 \<le> step \<and> 1 < p_alpha
      then TML_outer s totalnumcoeffs p_alpha (boundary div p_alpha) (step div p_alpha) (d + 1)
             hermite_map
             (TML_pass s totalnumcoeffs p_alpha boundary step d hermite_map arrtmp)
      else arrtmp)"
  by pat_completeness auto
termination
  by (relation "measure (\<lambda>(s, totalnumcoeffs, p_alpha, boundary, step, d, hermite_map, arrtmp).
                           step)")
     auto

text \<open>\<^verbatim>\<open>TranslateMultipoleToLocal_(ref_box_num, query_box_num, mcoeffsb, lcoeffsb,
  p_alpha, totalnumcoeffs, bwsqd_2, hrcentroid, dest_hrcentroid)\<close>.  \<open>mcoeffsb\<close> and
  \<open>lcoeffsb\<close> are the addresses of the two matrices.  The result is the address of the
  local vector \<^verbatim>\<open>lcoeffs\<close> and the store.  (\<^verbatim>\<open>j % step\<close> with \<^verbatim>\<open>step\<close> 0 and
  \<^verbatim>\<open>dim - 1\<close> with \<^verbatim>\<open>dim\<close> 0 do not occur for a truncation order of at least 1 and
  points of at least one coordinate.)\<close>

definition TranslateMultipoleToLocal ::
  "FGTKde \<Rightarrow> nat \<Rightarrow> nat \<Rightarrow> nat \<Rightarrow> nat \<Rightarrow> nat \<Rightarrow> nat \<Rightarrow> real \<Rightarrow> real list \<Rightarrow> real list \<Rightarrow> store
   \<Rightarrow> nat \<times> store" where
  "TranslateMultipoleToLocal s ref_box_num query_box_num mcoeffsb lcoeffsb p_alpha totalnumcoeffs
       bwsqd_2 hrcentroid dest_hrcentroid st =
     (let bandwidth = sqrt bwsqd_2;
          dim' = n_rows (qset s);
          (lcoeffs, st) = vec_from_col lcoeffsb query_box_num st;
          (mcoeffs, st) = vec_from_col mcoeffsb ref_box_num st;
          dest_minus_parent = map2 (-) dest_hrcentroid hrcentroid;
          limit = 2 * int p_alpha - 2;
          hermite_map = new_mat dim' (nat (limit + 1));
          arrtmp = new_mat dim' totalnumcoeffs;
          C_k_neg = neg_inv_multiindex_factorials (msea s);
          (hermite_map, arrtmp) =
            fold (\<lambda>j (hermite_map, arrtmp).
                    let coord_div_band = dest_minus_parent ! j / bandwidth;
                        hermite_map = hermite_row hermite_map j coord_div_band p_alpha limit;
                        arrtmp = fold (\<lambda>l arrtmp. mat_set arrtmp j l 0) [0..<totalnumcoeffs] arrtmp
                    in (hermite_map, arrtmp))
                 [0..<dim'] (hermite_map, arrtmp);
          step = totalnumcoeffs div p_alpha;
          d = 0;
          arrtmp =
            fold (\<lambda>j arrtmp.
                    let mapping = multiindex (msea s) j
                    in snd (fold (\<lambda>k (l, arrtmp).
                                    (l + step,
                                     mat_set arrtmp d j
                                       (elem arrtmp d j
                                          + vec_get st mcoeffs l
                                            * elem hermite_map d (mapping ! d + k))))
                                 [0..<p_alpha] (j mod step, arrtmp)))
                 [0..<totalnumcoeffs] arrtmp;
          arrtmp =
            (if p_alpha > 1
             then TML_outer s totalnumcoeffs p_alpha (totalnumcoeffs div p_alpha)
                    (step div p_alpha) 1 hermite_map arrtmp
             else arrtmp);
          d = dim' - 1;
          st = fold (\<lambda>j st. vec_set lcoeffs j
                               (vec_get st lcoeffs j + C_k_neg ! j * elem arrtmp d j) st)
                    [0..<totalnumcoeffs] st
      in (lcoeffs, st))"

subsection \<open>A smallest instance\<close>

text \<open>One reference point and one query point, both at 0 on the line, truncation
  order 1 (one coefficient per box, inverse factorial 1), a grid of one box.  The
  store holds the matrix of local coefficients at address 0, all zero, and the
  matrix of far-field coefficients at address 1, whose single element is \<open>c\<close>.\<close>

definition ex_kde :: FGTKde where
  "ex_kde = \<lparr>qset = \<lparr>n_rows = 1, n_cols = 1, mem = [0]\<rparr>,
             rset = \<lparr>n_rows = 1, n_cols = 1, mem = [0]\<rparr>,
             kernel = GaussianKernel_Init 1, densities = [0], tau = 1 / 1000,
             msea = \<lparr>inv_multiindex_factorials = [1], neg_inv_multiindex_factorials = [1],
                     multiindex = (\<lambda>j. [0])\<rparr>\<rparr>"

definition ex_store :: "real \<Rightarrow> store" where
  "ex_store c = \<lparr>heap = (\<lambda>a. if a = 0 then \<lparr>n_rows = 1, n_cols = 1, mem = [0]\<rparr>
                             else \<lparr>n_rows = 1, n_cols = 1, mem = [c]\<rparr>),
                 brk = 2\<rparr>"

section \<open>Initialisation, grid planning and normalisation\<close>

text \<open>The two parameters that \<^verbatim>\<open>Init\<close> reads with \<^verbatim>\<open>IO::GetParam\<close>:
  \<^verbatim>\<open>kde/bandwidth\<close> and \<^verbatim>\<open>kde/absolute_error\<close>.\<close>

record params =
  kde_bandwidth :: real
  kde_absolute_error :: real

text \<open>\<^verbatim>\<open>v.set_size(n)\<close> gives the vector \<open>n\<close> elements; when the size changes the
  elements are not initialised.\<close>

definition set_size :: "nat \<Rightarrow> real list \<Rightarrow> real list" where
  "set_size n v = (if length v = n then v else new_vec n)"

text \<open>\<^verbatim>\<open>Init(qset, rset)\<close>.  The function has no test and no way to fail: it
  returns the object with its members assigned.\<close>

definition Init :: "params \<Rightarrow> FGTKde \<Rightarrow> mat \<Rightarrow> mat \<Rightarrow> FGTKde" where
  "Init io s qset' rset' =
     (let s = s\<lparr>kernel := GaussianKernel_Init (kde_bandwidth io)\<rparr>;
          s = s\<lparr>qset := qset'\<rparr>;
          s = s\<lparr>densities := set_size (n_cols (qset s)) (densities s)\<rparr>;
          s = s\<lparr>rset := rset'\<rparr>
      in s\<lparr>tau := kde_absolute_error io\<rparr>)"

text \<open>The largest finite \<^verbatim>\<open>double\<close>.\<close>

definition DBL_MAX :: real where
  "DBL_MAX = (2 - 1 / 2 ^ 52) * 2 ^ 1023"

text \<open>The \<^verbatim>\<open>do ... while(ret2 > tau_)\<close> loop at lines 158-171 of
  \<^verbatim>\<open>FastGaussTransformPreprocess_\<close>, on the variables \<^verbatim>\<open>ip\<close>, \<^verbatim>\<open>factorialvalue\<close> and
  \<^verbatim>\<open>r_raised_to_p_alpha\<close>.  The loop has no exit but its condition.  The counter
  \<^verbatim>\<open>ip\<close> is an \<^verbatim>\<open>index_t\<close>: a round that starts with \<^verbatim>\<open>ip\<close> at \<open>INDEX_MAX\<close> overflows
  it in \<^verbatim>\<open>ip++\<close>, which is undefined behaviour; that end of the loop is the result
  \<^term>\<open>None\<close>.  Otherwise the result is the value of \<^verbatim>\<open>ip\<close> after the loop.
  \<^verbatim>\<open>pow(x, dim)\<close> is the power; the arithmetic on the \<^verbatim>\<open>double\<close>s is exact.\<close>

function truncation_search ::
  "real \<Rightarrow> nat \<Rightarrow> real \<Rightarrow> real \<Rightarrow> int \<times> real \<times> real \<Rightarrow> int option" where
  "truncation_search two_r dim' ret tau' (ip, factorialvalue, r_raised_to_p_alpha) =
     (if INDEX_MAX \<le> ip then None
      else
        let ip = ip + 1;
            factorialvalue = factorialvalue * of_int ip;
            r_raised_to_p_alpha = r_raised_to_p_alpha * two_r;
            first_factor = 1 - r_raised_to_p_alpha;
            first_factor = first_factor * first_factor;
            second_factor = r_raised_to_p_alpha * (2 - r_raised_to_p_alpha) / sqrt factorialvalue;
            ret2 = ret * ((first_factor + second_factor) ^ dim' - first_factor ^ dim')
        in if ret2 > tau'
           then truncation_search two_r dim' ret tau' (ip, factorialvalue, r_raised_to_p_alpha)
           else Some ip)"
  by pat_completeness auto
termination
  by (relation "measure (\<lambda>(two_r, dim', ret, tau', ip, factorialvalue, r_raised_to_p_alpha).
                           nat (INDEX_MAX - ip))")
     auto

declare truncation_search.simps [simp del]

text \<open>The two blocks of \<^verbatim>\<open>FastGaussTransformPreprocess_\<close> before the search.  Lines
  109-127 compute the bounding box of the reference points: \<^verbatim>\<open>maxcoords\<close> is local,
  \<^verbatim>\<open>mincoords\<close> is the caller's vector.  Lines 130-146 derive, axis by axis, the number
  of boxes, the running product \<^verbatim>\<open>nboxes\<close>, the largest normalised half side
  \<^verbatim>\<open>boxside\<close> and the side length.\<close>

definition Preprocess_bounds :: "FGTKde \<Rightarrow> real list \<Rightarrow> real list \<times> real list" where
  "Preprocess_bounds s mincoords =
     (let num_rows = n_cols (rset s);
          dim' = n_rows (rset s);
          maxcoords = replicate dim' (- DBL_MAX);
          mincoords = fold (\<lambda>di mincoords. mincoords[di := DBL_MAX]) [0..<dim'] mincoords
      in fold (\<lambda>n. fold (\<lambda>di (mincoords, maxcoords).
                           let mincoords = (if mincoords ! di > elem (rset s) di n
                                            then mincoords[di := elem (rset s) di n]
                                            else mincoords);
                               maxcoords = (if maxcoords ! di < elem (rset s) di n
                                            then maxcoords[di := elem (rset s) di n]
                                            else maxcoords)
                           in (mincoords, maxcoords))
                        [0..<dim'])
              [0..<num_rows] (mincoords, maxcoords))"

definition Preprocess_sides ::
  "nat \<Rightarrow> real \<Rightarrow> real list \<Rightarrow> real list \<Rightarrow> int list \<Rightarrow> real list
   \<Rightarrow> int list \<times> int \<times> real \<times> real list" where
  "Preprocess_sides dim' bandwidth' mincoords maxcoords nsides sidelengths =
     (let boxside = - 1;
          nboxes = 1
      in fold (\<lambda>di (nsides, nboxes, boxside, sidelengths).
                 let nsides = nsides[di := to_index_t
                                ((maxcoords ! di - mincoords ! di) / bandwidth' + 1)];
                     nboxes = wrap_index (nboxes * nsides ! di);
                     tmp = (maxcoords ! di - mincoords ! di)
                             / (of_int (wrap_index (nsides ! di * 2)) * bandwidth');
                     boxside = (if tmp > boxside then tmp else boxside);
                     sidelengths = sidelengths[di := (maxcoords ! di - mincoords ! di)
                                                       / of_int (nsides ! di)]
                 in (nsides, nboxes, boxside, sidelengths))
              [0..<dim'] (nsides, nboxes, boxside, sidelengths))"

text \<open>\<^verbatim>\<open>FastGaussTransformPreprocess_(interaction_radius, nsides, sidelengths,
  mincoords, nboxes, nterms)\<close>.  The three containers are passed by reference and
  written at the positions below the dimension; the result is the six output
  parameters in the order of the signature, or \<^term>\<open>None\<close> when the search for the
  truncation order overflows its counter.\<close>

definition FastGaussTransformPreprocess ::
  "FGTKde \<Rightarrow> int list \<Rightarrow> real list \<Rightarrow> real list
   \<Rightarrow> (real \<times> int list \<times> real list \<times> real list \<times> int \<times> int) option" where
  "FastGaussTransformPreprocess s nsides sidelengths mincoords =
     (let bandwidth' = sqrt (bandwidth_sq (kernel s));
          interaction_radius = sqrt (- 2 * bandwidth_sq (kernel s) * ln (tau s));
          dim' = n_rows (rset s);
          (mincoords, maxcoords) = Preprocess_bounds s mincoords;
          (nsides, nboxes, boxside, sidelengths) =
            Preprocess_sides dim' bandwidth' mincoords maxcoords nsides sidelengths;
          ip = 0;
          two_r = 2 * boxside;
          one_minus_two_r = 1 - two_r;
          ret = 1 / (one_minus_two_r * one_minus_two_r) ^ dim';
          factorialvalue = 1;
          r_raised_to_p_alpha = 1
      in case truncation_search two_r dim' ret (tau s) (ip, factorialvalue, r_raised_to_p_alpha) of
           None \<Rightarrow> None
         | Some nterms \<Rightarrow>
             Some (interaction_radius, nsides, sidelengths, mincoords, nboxes, nterms))"

text \<open>\<^verbatim>\<open>NormalizeDensities_()\<close>.  \<^verbatim>\<open>CalcNormConstant\<close>, a member of the kernel class,
  is a parameter.  A write to \<^verbatim>\<open>densities_[q]\<close> beyond the size of the vector is
  undefined behaviour in the source and leaves the list as it is in the model.\<close>

definition NormalizeDensities :: "(GaussianKernel \<Rightarrow> nat \<Rightarrow> real) \<Rightarrow> FGTKde \<Rightarrow> FGTKde" where
  "NormalizeDensities CalcNormConstant s =
     (let norm_const = CalcNormConstant (kernel s) (n_rows (qset s)) * real (n_cols (rset s))
      in s\<lparr>densities :=
             fold (\<lambda>q densities'. densities'[q := densities' ! q / norm_const])
                  [0..<n_cols (qset s)] (densities s)\<rparr>)"

text \<open>Modelled from the spec: \<^verbatim>\<open>la::DistanceSqEuclidean\<close> is declared outside this
  file; the spec names it \<open>Euclidean squared distance\<close>.\<close>

definition DistanceSqEuclidean :: "real list \<Rightarrow> real list \<Rightarrow> real" where
  "DistanceSqEuclidean a b = (\<Sum>(x, y) \<leftarrow> zip a b. (x - y) * (x - y))"

text \<open>The direct interaction of one query point with the reference points of a box,
  the loop over \<^verbatim>\<open>l\<close> at lines 986-996 of \<^verbatim>\<open>FinalizeSum_\<close>.\<close>

definition DirectInteraction :: "FGTKde \<Rightarrow> real \<Rightarrow> int list \<Rightarrow> nat \<Rightarrow> FGTKde" where
  "DirectInteraction s delta reference_rows query_row =
     (let query = col (qset s) query_row
      in fold (\<lambda>l s.
                 let reference_row = nat (reference_rows ! l);
                     reference = col (rset s) reference_row;
                     dsqd = DistanceSqEuclidean query reference;
                     pot = exp (- dsqd / delta)
                 in s\<lparr>densities := (densities s)[query_row := densities s ! query_row + pot]\<rparr>)
              [0..<length reference_rows] s)"

text \<open>The value of \<^verbatim>\<open>ret2\<close> in round \<open>p\<close> of the search, in closed form: the error
  bound at order \<open>p\<close>.\<close>

definition truncation_bound :: "real \<Rightarrow> nat \<Rightarrow> real \<Rightarrow> nat \<Rightarrow> real" where
  "truncation_bound two_r dim' ret p =
     (let r = two_r ^ p;
          first_factor = (1 - r) * (1 - r);
          second_factor = r * (2 - r) / sqrt (fact p)
      in ret * ((first_factor + second_factor) ^ dim' - first_factor ^ dim'))"

section \<open>Evaluation of the expansions and the main loop\<close>

text \<open>\<^verbatim>\<open>EvaluateMultipoleExpansion_(rows, p_alpha, totalnumcoeffs, mcoeffsb, ref_box_num,
  bwsqd_times_2, ref_hrcentroid)\<close> adds to \<^verbatim>\<open>densities_\<close>, a member of the object, and
  reads the far-field coefficients from the vector it constructs from column
  \<^verbatim>\<open>ref_box_num\<close> of the matrix at address \<open>mcoeffsb\<close>.  Its three nested loops over
  \<^verbatim>\<open>arrtmp\<close> (lines 756-772) are those of \<^verbatim>\<open>DirectLocalAccumulation_\<close>, character by
  character, and are modelled by the same functions.\<close>

text \<open>The body of the loop over the query points (lines 720-785).  \<^verbatim>\<open>x_q_minus_x_R\<close>,
  \<^verbatim>\<open>hermite_map\<close> and \<^verbatim>\<open>arrtmp\<close> are declared before the loop and keep their
  elements from one round to the next; \<open>mcoeffs\<close> is the address of the vector that
  line 717 constructs.\<close>

definition EME_row ::
  "nat \<Rightarrow> nat \<Rightarrow> nat \<Rightarrow> int \<Rightarrow> real \<Rightarrow> real list \<Rightarrow> store \<Rightarrow> nat \<Rightarrow> int list \<Rightarrow> nat
   \<Rightarrow> real list \<times> mat \<times> real list \<times> FGTKde \<Rightarrow> real list \<times> mat \<times> real list \<times> FGTKde" where
  "EME_row dim' p_alpha totalnumcoeffs limit2 bandwidth' ref_hrcentroid st mcoeffs rows r =
     (\<lambda>(x_q_minus_x_R, hermite_map, arrtmp, s).
        let multipolesum = 0;
            row_num = nat (rows ! r);
            x_q_minus_x_R =
              fold (\<lambda>d x. x[d := elem (qset s) d row_num - ref_hrcentroid ! d])
                   [0..<dim'] x_q_minus_x_R;
            hermite_map =
              fold (\<lambda>d hermite_map.
                      let coord_div_band = x_q_minus_x_R ! d / bandwidth'
                      in hermite_row hermite_map d coord_div_band p_alpha limit2)
                   [0..<dim'] hermite_map;
            arrtmp = arrtmp[0 := 1];
            arrtmp =
              (if p_alpha > 1
               then DLA_outer totalnumcoeffs p_alpha totalnumcoeffs
                      (totalnumcoeffs div p_alpha) hermite_map 0 arrtmp
               else fold (\<lambda>d arrtmp. arrtmp[0 := arrtmp ! 0 * elem hermite_map d 0])
                         [0..<dim'] arrtmp);
            multipolesum =
              fold (\<lambda>j multipolesum. multipolesum + vec_get st mcoeffs j * arrtmp ! j)
                   [0..<totalnumcoeffs] multipolesum
        in (x_q_minus_x_R, hermite_map, arrtmp,
            s\<lparr>densities := (densities s)[row_num := densities s ! row_num + multipolesum]\<rparr>))"

definition EvaluateMultipoleExpansion ::
  "int list \<Rightarrow> nat \<Rightarrow> nat \<Rightarrow> nat \<Rightarrow> nat \<Rightarrow> real \<Rightarrow> real list \<Rightarrow> FGTKde \<times> store \<Rightarrow> FGTKde \<times> store" where
  "EvaluateMultipoleExpansion rows p_alpha totalnumcoeffs mcoeffsb ref_box_num bwsqd_times_2
       ref_hrcentroid =
     (\<lambda>(s, st).
        let bandwidth' = sqrt bwsqd_times_2;
            num_query_rows = length rows;
            dim' = n_rows (qset s);
            x_q_minus_x_R = new_vec dim';
            hermite_map = new_mat dim' p_alpha;
            arrtmp = new_vec totalnumcoeffs;
            limit2 = int p_alpha - 1;
            (mcoeffs, st) = vec_from_col mcoeffsb ref_box_num st;
            (x_q_minus_x_R, hermite_map, arrtmp, s) =
              fold (EME_row dim' p_alpha totalnumcoeffs limit2 bandwidth' ref_hrcentroid st mcoeffs
                      rows)
                   [0..<num_query_rows] (x_q_minus_x_R, hermite_map, arrtmp, s)
        in (s, st))"

text \<open>\<^verbatim>\<open>EvaluateLocalExpansion_(row_q, x_Q, h, query_box_num, lcoeffsb, totalnumcoeffs,
  p_alpha)\<close> returns the value of the local expansion of the box at the query point.
  Its loops over \<^verbatim>\<open>tmp\<close> (lines 827-839) are those of \<^verbatim>\<open>ComputeMultipoleCoeffs_\<close>; they
  stand under \<^verbatim>\<open>if(totalnumcoeffs > 1)\<close>, and every caller passes
  \<^verbatim>\<open>totalnumcoeffs = p_alpha^dim\<close>, which exceeds 1 only when \<^verbatim>\<open>p_alpha\<close> does.\<close>

definition EvaluateLocalExpansion ::
  "FGTKde \<Rightarrow> nat \<Rightarrow> real list \<Rightarrow> real \<Rightarrow> nat \<Rightarrow> nat \<Rightarrow> nat \<Rightarrow> nat \<Rightarrow> store \<Rightarrow> real \<times> store" where
  "EvaluateLocalExpansion s row_q x_Q h query_box_num lcoeffsb totalnumcoeffs p_alpha st =
     (let dim' = n_rows (qset s);
          x_Q_to_x_q = new_vec dim';
          multipolesum = 0;
          x_Q_to_x_q =
            fold (\<lambda>i x. let x_Q_val = x_Q ! i;
                             x_q_val = elem (qset s) i row_q
                         in x[i := (x_q_val - x_Q_val) / h])
                 [0..<dim'] x_Q_to_x_q;
          (lcoeffs, st) = vec_from_col lcoeffsb query_box_num st;
          tmp = new_vec totalnumcoeffs;
          tmp = tmp[0 := 1];
          tmp = (if totalnumcoeffs > 1
                 then CMC_outer totalnumcoeffs p_alpha totalnumcoeffs (totalnumcoeffs div p_alpha)
                        x_Q_to_x_q 0 tmp
                 else tmp);
          multipolesum =
            fold (\<lambda>i multipolesum. multipolesum + vec_get st lcoeffs i * tmp ! i)
                 [0..<totalnumcoeffs] multipolesum
      in (multipolesum, st))"

text \<open>\<^verbatim>\<open>EvaluateLocalExpansionForAllQueries_\<close>: the boxes with at most \<^verbatim>\<open>nlmax\<close> queries
  are skipped.  \<open>center\<close> is the matrix of box centres, which no function writes.\<close>

definition EvaluateLocalExpansionForAllQueries ::
  "real \<Rightarrow> int \<Rightarrow> int \<Rightarrow> int list \<Rightarrow> nat \<Rightarrow> int \<Rightarrow> int list list \<Rightarrow> mat \<Rightarrow> nat
   \<Rightarrow> FGTKde \<times> store \<Rightarrow> FGTKde \<times> store" where
  "EvaluateLocalExpansionForAllQueries delta nterms nallbx nsides locexp nlmax queries_assigned
       center totalnumcoeffs =
     fold (\<lambda>i (s, st).
             let query_rows = queries_assigned ! i;
                 ninbox = int (length query_rows)
             in if ninbox \<le> nlmax then (s, st)
                else fold (\<lambda>j (s, st).
                             let row_q = nat (query_rows ! j);
                                 x_Q = col center i;
                                 (result, st) =
                                   EvaluateLocalExpansion s row_q x_Q (sqrt delta) i locexp
                                     totalnumcoeffs (nat nterms) st
                             in (s\<lparr>densities := (densities s)[row_q := densities s ! row_q + result]\<rparr>,
                                 st))
                          [0..<length query_rows] (s, st))
          [0..<nat nallbx]"

text \<open>\<^verbatim>\<open>FinalizeSum_\<close>.  \<open>locexp\<close> and \<open>mcoeffs\<close> are the addresses of the two coefficient
  matrices; the result is the three containers after the call, the object and the
  store.  The orders and counts that the expansion routines take are not negative
  (\<open>nat\<close>).\<close>

definition FinalizeSum ::
  "real \<Rightarrow> int \<Rightarrow> int \<Rightarrow> int list \<Rightarrow> real list \<Rightarrow> real list \<Rightarrow> nat \<Rightarrow> int \<Rightarrow> int \<Rightarrow> int \<Rightarrow> mat
   \<Rightarrow> int list list \<Rightarrow> int list list \<Rightarrow> nat \<Rightarrow> FGTKde \<times> store
   \<Rightarrow> mat \<times> int list list \<times> int list list \<times> FGTKde \<times> store" where
  "FinalizeSum delta nterms nallbx nsides sidelengths mincoords locexp nfmax nlmax kdis center
       queries_assigned references_assigned mcoeffs =
     (\<lambda>(s, st).
        let dim' = n_rows (qset s);
            totalnumcoeffs = nat (to_index_t (pow_index nterms (int dim')));
            (center, queries_assigned, references_assigned) =
              Assign s nallbx nsides sidelengths mincoords center queries_assigned
                references_assigned;
            (s, st) =
              fold (\<lambda>i (s, st).
                      let reference_rows = references_assigned ! i;
                          ninbox = int (length reference_rows)
                      in if ninbox \<le> 0 then (s, st)
                         else if ninbox \<le> nfmax then
                           let nbors = MakeNeighbors (int i) nsides kdis [];
                               nnbors = length nbors
                           in fold (\<lambda>j (s, st).
                                      let query_box_num = nat (nbors ! j);
                                          query_rows = queries_assigned ! query_box_num;
                                          ninnbr = int (length query_rows)
                                      in if ninnbr \<le> nlmax
                                         then (fold (\<lambda>k s.
                                                       let query_row = nat (query_rows ! k)
                                                       in DirectInteraction s delta reference_rows
                                                            query_row)
                                                    [0..<length query_rows] s,
                                               st)
                                         else let qboxcol = col center query_box_num;
                                                  r = DirectLocalAccumulation s reference_rows
                                                        query_box_num locexp delta qboxcol
                                                        (nat nterms) totalnumcoeffs st
                                              in (s, snd r))
                                   [0..<nnbors] (s, st)
                         else
                           let tmpcol = col center i;
                               r = ComputeMultipoleCoeffs s mcoeffs dim' (nat nterms) totalnumcoeffs
                                     i delta reference_rows tmpcol st;
                               st = snd (snd r);
                               nbors = MakeNeighbors (int i) nsides kdis [];
                               nnbors = length nbors
                           in fold (\<lambda>j (s, st).
                                      let query_box_num = nat (nbors ! j);
                                          query_rows = queries_assigned ! query_box_num;
                                          ninnbr = int (length query_rows)
                                      in if ninnbr \<le> nlmax
                                         then let tmpcol = col center i
                                              in EvaluateMultipoleExpansion query_rows (nat nterms)
                                                   totalnumcoeffs mcoeffs i delta tmpcol (s, st)
                                         else let tmpcol1 = col center i;
                                                  tmpcol2 = col center query_box_num;
                                                  r = TranslateMultipoleToLocal s i query_box_num
                                                        mcoeffs locexp (nat nterms) totalnumcoeffs
                                                        delta tmpcol1 tmpcol2 st
                                              in (s, snd r))
                                   [0..<nnbors] (s, st))
                   [0..<nat nallbx] (s, st);
            (s, st) =
              EvaluateLocalExpansionForAllQueries delta nterms nallbx nsides locexp nlmax
                queries_assigned center totalnumcoeffs (s, st)
        in (center, queries_assigned, references_assigned, s, st))"

text \<open>\<^verbatim>\<open>GaussTransform_\<close> derives the interaction range \<^verbatim>\<open>kdis\<close> and the cut-offs
  \<^verbatim>\<open>nfmax\<close> and \<^verbatim>\<open>nlmax\<close>.  The exponent \<^verbatim>\<open>dim - 1\<close> is \<open>-1\<close> for points without
  coordinates.\<close>

definition GaussTransform ::
  "real \<Rightarrow> int \<Rightarrow> int \<Rightarrow> int list \<Rightarrow> real list \<Rightarrow> real list \<Rightarrow> nat \<Rightarrow> mat
   \<Rightarrow> int list list \<Rightarrow> int list list \<Rightarrow> nat \<Rightarrow> FGTKde \<times> store
   \<Rightarrow> mat \<times> int list list \<times> int list list \<times> FGTKde \<times> store" where
  "GaussTransform delta nterms nallbx nsides sidelengths mincoords locexp center queries_assigned
       references_assigned mcoeffs =
     (\<lambda>(s, st).
        let dim' = int (n_rows (qset s));
            kdis = to_index_t (sqrt (ln (tau s) * - 2) + 1);
            nfmax = wrap_index (to_index_t (pow_index nterms (dim' - 1)) + 2);
            nlmax = nfmax
        in FinalizeSum delta nterms nallbx nsides sidelengths mincoords locexp nfmax nlmax kdis
             center queries_assigned references_assigned mcoeffs (s, st))"

text \<open>The values that the specification gives to the two expansions, in its words.
  The Hermite functions: \<open>H_0 = exp(-u\<^sup>2)\<close>, \<open>H_1 = 2u\<cdot>H_0\<close>,
  \<open>H_{k+1} = 2u\<cdot>H_k - 2k\<cdot>H_{k-1}\<close>.  The multi-index of position \<open>i\<close> of a
  coefficient vector of \<open>p\<^sup>D\<close> elements: axis \<open>d\<close> has the stride \<open>p\<^sup>D / p\<^sup>d\<^sup>+\<^sup>1\<close>.  The
  far-field value at a query is the dot product of the coefficients with the
  products of the per-axis Hermite functions at \<open>u\<close>, the local value that with the
  products of the per-axis powers of \<open>u\<close>; \<open>u\<close> holds one scaled coordinate
  difference per axis.\<close>

fun spec_hermite :: "real \<Rightarrow> nat \<Rightarrow> real" where
  "spec_hermite u 0 = exp (- (u * u))"
| "spec_hermite u (Suc 0) = 2 * u * spec_hermite u 0"
| "spec_hermite u (Suc (Suc k)) =
     2 * u * spec_hermite u (Suc k) - 2 * real (Suc k) * spec_hermite u k"

definition multi_index :: "nat \<Rightarrow> nat \<Rightarrow> nat \<Rightarrow> nat \<Rightarrow> nat" where
  "multi_index p D d i = (i div p ^ (D - 1 - d)) mod p"

definition spec_far_field_value :: "real list \<Rightarrow> nat \<Rightarrow> real list \<Rightarrow> real" where
  "spec_far_field_value coeffs p u =
     (\<Sum>j<p ^ length u.
        coeffs ! j * (\<Prod>d<length u. spec_hermite (u ! d) (multi_index p (length u) d j)))"

definition spec_local_value :: "real list \<Rightarrow> nat \<Rightarrow> real list \<Rightarrow> real" where
  "spec_local_value coeffs p u =
     (\<Sum>j<p ^ length u.
        coeffs ! j * (\<Prod>d<length u. (u ! d) ^ multi_index p (length u) d j))"

text \<open>Auxiliary functions for the proofs.  One sweep over an axis, from block \<open>b\<close> on:
  every position that is a multiple of the stride gets the value at the start of
  its block times the weight of its place in the block.  The sweeps over the last
  \<open>n\<close> axes, from axis \<open>d\<close> on.\<close>

definition axis_sweep :: "(nat \<Rightarrow> real) \<Rightarrow> nat \<Rightarrow> nat \<Rightarrow> nat \<Rightarrow> real list \<Rightarrow> real list" where
  "axis_sweep w boundary step b a =
     map (\<lambda>x. if b * boundary \<le> x \<and> x mod step = 0
               then a ! (x - x mod boundary) * w (x mod boundary div step)
               else a ! x)
         [0..<length a]"

fun sweep_axes :: "(nat \<Rightarrow> nat \<Rightarrow> real) \<Rightarrow> nat \<Rightarrow> nat \<Rightarrow> nat \<Rightarrow> real list \<Rightarrow> real list" where
  "sweep_axes w p 0 d a = a"
| "sweep_axes w p (Suc n) d a =
     sweep_axes w p n (Suc d) (axis_sweep (w d) (p ^ Suc n) (p ^ n) 0 a)"

text \<open>The brute-force estimate of the specification, in its words:
  \<open>(1/(Nr\<cdot>normConst)) \<Sum>\<^sub>r exp(-\<parallel>q-r\<parallel>\<^sup>2/(2\<cdot>bandwidth\<^sup>2))\<close> for the query column \<open>q\<close>.\<close>

definition bruteForceEstimate :: "real \<Rightarrow> FGTKde \<Rightarrow> nat \<Rightarrow> real" where
  "bruteForceEstimate normConst s q =
     1 / (real (n_cols (rset s)) * normConst)
       * (\<Sum>r\<leftarrow>[0..<n_cols (rset s)].
            exp (- DistanceSqEuclidean (col (qset s) q) (col (rset s) r)
                   / (2 * bandwidth_sq (kernel s))))"

subsection \<open>An instance with two boxes\<close>

text \<open>Two reference points, 0 and 1, and one query point at 1, on the line, with
  bandwidth 1 and tolerance \<open>1/10\<close>.  The grid that \<^verbatim>\<open>FastGaussTransformPreprocess_\<close>
  builds for them has two boxes of side \<open>1/2\<close> from 0.  The store holds the two
  coefficient matrices, of \<open>n\<close> rows and two columns, all zero.\<close>

definition ex2_kde :: FGTKde where
  "ex2_kde = Init \<lparr>kde_bandwidth = 1, kde_absolute_error = 1 / 10\<rparr> ex_kde
               \<lparr>n_rows = 1, n_cols = 1, mem = [1]\<rparr> \<lparr>n_rows = 1, n_cols = 2, mem = [0, 1]\<rparr>"

definition ex2_store :: "nat \<Rightarrow> store" where
  "ex2_store n = \<lparr>heap = (\<lambda>a. \<lparr>n_rows = n, n_cols = 2, mem = replicate (n * 2) 0\<rparr>), brk = 2\<rparr>"

section \<open>Properties of the grid indexing\<close>

lemma wrap_index_id: "INDEX_MIN \<le> x \<Longrightarrow> x \<le> INDEX_MAX \<Longrightarrow> wrap_index x = x"
  by (simp add: wrap_index_def INDEX_MIN_def INDEX_MAX_def)

lemma to_index_t_of_int: "INDEX_MIN \<le> x \<Longrightarrow> x \<le> INDEX_MAX \<Longrightarrow> to_index_t (of_int x) = x"
  by (simp add: to_index_t_def)

lemma sdiv_nonneg: "0 \<le> a \<Longrightarrow> 0 < b \<Longrightarrow> (a::int) sdiv b = a div b"
  by (cases "a = 0") (simp_all add: signed_divide_int_def)

lemma smod_nonneg: "0 \<le> a \<Longrightarrow> 0 < b \<Longrightarrow> (a::int) smod b = a mod b"
  by (cases "a = 0") (simp_all add: signed_modulo_int_def)

lemma prod_take_pos: "\<forall>x\<in>set n. 0 < x \<Longrightarrow> 0 < prod_list (take i (n::int list))"
  by (induction n arbitrary: i) (auto simp: take_Cons' )

lemma prod_drop_ge1: "\<forall>x\<in>set n. 0 < x \<Longrightarrow> 1 \<le> prod_list (drop i (n::int list))"
proof (induction n arbitrary: i)
  case Nil
  then show ?case by simp
next
  case (Cons a n)
  show ?case
  proof (cases i)
    case 0
    have "1 \<le> a" using Cons.prems by simp
    moreover have "1 \<le> prod_list n" using Cons.IH[of 0] Cons.prems by simp
    ultimately have "1 * 1 \<le> a * prod_list n" by (intro mult_mono) simp_all
    then show ?thesis using 0 by simp
  next
    case (Suc j)
    then show ?thesis using Cons.IH[of j] Cons.prems by simp
  qed
qed

lemma prod_take_le:
  assumes "\<forall>x\<in>set n. 0 < x"
  shows "prod_list (take i (n::int list)) \<le> prod_list n"
proof -
  have "prod_list n = prod_list (take i n) * prod_list (drop i n)"
    by (simp flip: prod_list.append)
  moreover have "prod_list (take i n) * 1 \<le> prod_list (take i n) * prod_list (drop i n)"
    using prod_take_pos[OF assms, of i] prod_drop_ge1[OF assms, of i]
    by (intro mult_left_mono) simp_all
  ultimately show ?thesis by simp
qed

text \<open>On a grid whose number of boxes fits \<^verbatim>\<open>index_t\<close>, no product of the inner
  loop of \<^verbatim>\<open>MultiDimIndexInSingleArray_\<close> wraps.\<close>

lemma radix_prod:
  fixes n :: "int list"
  assumes "\<forall>x\<in>set n. 0 < x" "prod_list n \<le> INDEX_MAX"
  shows "i \<le> length n \<Longrightarrow>
         fold (\<lambda>j prod. wrap_index (prod * n ! j)) [0..<i] 1 = prod_list (take i n)"
proof (induction i)
  case 0
  then show ?case by simp
next
  case (Suc i)
  have "0 < prod_list (take (Suc i) n)" using assms(1) by (rule prod_take_pos)
  moreover have "prod_list (take (Suc i) n) \<le> INDEX_MAX"
    using prod_take_le[OF assms(1), of "Suc i"] assms(2) by simp
  ultimately have "wrap_index (prod_list (take (Suc i) n)) = prod_list (take (Suc i) n)"
    by (intro wrap_index_id) (simp_all add: INDEX_MIN_def)
  then show ?case using Suc by (simp add: take_Suc_conv_app_nth)
qed

lemma partial_code_range:
  fixes n :: "int list"
  assumes "cs \<in> grid_tuples n"
  shows "k \<le> length n \<Longrightarrow>
         0 \<le> (\<Sum>i<k. cs ! i * prod_list (take i n))
         \<and> (\<Sum>i<k. cs ! i * prod_list (take i n)) < prod_list (take k n)"
proof (induction k)
  case 0
  then show ?case by simp
next
  case (Suc k)
  have k: "k < length n" using Suc.prems by simp
  have c: "0 \<le> cs ! k" "cs ! k + 1 \<le> n ! k" using assms k unfolding grid_tuples_def by auto
  have pos: "\<forall>x\<in>set (take k n). 0 < x"
  proof
    fix x assume "x \<in> set (take k n)"
    then obtain j where j: "j < k" "x = n ! j" using k by (auto simp: in_set_conv_nth)
    then have "0 \<le> cs ! j \<and> cs ! j < n ! j" using assms k unfolding grid_tuples_def by auto
    then show "0 < x" using j by simp
  qed
  have p: "0 < prod_list (take k n)"
    using prod_take_pos[OF pos, of k] by simp
  from Suc have ih: "0 \<le> (\<Sum>i<k. cs ! i * prod_list (take i n))"
    "(\<Sum>i<k. cs ! i * prod_list (take i n)) < prod_list (take k n)" by simp_all
  have lo: "0 \<le> cs ! k * prod_list (take k n)" using c p by simp
  have "(cs ! k + 1) * prod_list (take k n) \<le> n ! k * prod_list (take k n)"
    using c p by (intro mult_right_mono) simp_all
  then have "(\<Sum>i<k. cs ! i * prod_list (take i n)) + cs ! k * prod_list (take k n)
             < n ! k * prod_list (take k n)"
    using ih by (simp add: algebra_simps)
  then show ?case using ih lo k by (simp add: take_Suc_conv_app_nth mult.commute)
qed

lemma encode_fold:
  fixes n :: "int list"
  assumes pos: "\<forall>x\<in>set n. 0 < x" and bound: "prod_list n \<le> INDEX_MAX"
    and cs: "cs \<in> grid_tuples n"
  shows "k \<le> length n \<Longrightarrow>
   fold (\<lambda>i sum. let prod = fold (\<lambda>j prod. wrap_index (prod * n ! j)) [0..<i] 1
                  in wrap_index (sum + wrap_index (cs ! i * prod))) [0..<k] 0
   = (\<Sum>i<k. cs ! i * prod_list (take i n))"
proof (induction k)
  case 0
  then show ?case by simp
next
  case (Suc k)
  have k: "k < length n" using Suc.prems by simp
  have c: "0 \<le> cs ! k" using cs k unfolding grid_tuples_def by auto
  have p: "0 < prod_list (take k n)" using pos by (rule prod_take_pos)
  have le: "prod_list (take (Suc k) n) \<le> INDEX_MAX"
    using prod_take_le[OF pos, of "Suc k"] bound by simp
  from partial_code_range[OF cs, of k] k
  have s: "0 \<le> (\<Sum>i<k. cs ! i * prod_list (take i n))" by simp
  from partial_code_range[OF cs, of "Suc k"] k
  have t: "(\<Sum>i<k. cs ! i * prod_list (take i n)) + cs ! k * prod_list (take k n)
           < prod_list (take (Suc k) n)" by simp
  have lo: "0 \<le> cs ! k * prod_list (take k n)" using c p by simp
  have w1: "wrap_index (cs ! k * prod_list (take k n)) = cs ! k * prod_list (take k n)"
    using lo s t le by (intro wrap_index_id) (simp_all add: INDEX_MIN_def)
  have w2: "wrap_index ((\<Sum>i<k. cs ! i * prod_list (take i n)) + cs ! k * prod_list (take k n))
            = (\<Sum>i<k. cs ! i * prod_list (take i n)) + cs ! k * prod_list (take k n)"
    using lo s t le by (intro wrap_index_id) (simp_all add: INDEX_MIN_def)
  show ?case using Suc k by (simp add: Let_def radix_prod[OF pos bound] w1 w2)
qed

lemma code_sum_radix_enc:
  "length cs = length n \<Longrightarrow> (\<Sum>i<length cs. cs ! i * prod_list (take i n)) = radix_enc cs n"
proof (induction cs n rule: list_induct2')
  case (4 c cs n ns)
  then have l: "length cs = length ns" by simp
  have "(\<Sum>i<length (c # cs). (c # cs) ! i * prod_list (take i (n # ns)))
        = (\<Sum>i<Suc (length cs). (c # cs) ! i * prod_list (take i (n # ns)))"
    by simp
  also have "\<dots> = c + (\<Sum>i<length cs. cs ! i * (n * prod_list (take i ns)))"
    by (simp add: sum.lessThan_Suc_shift del: sum.lessThan_Suc)
  also have "\<dots> = c + n * (\<Sum>i<length cs. cs ! i * prod_list (take i ns))"
    by (simp add: sum_distrib_left mult.left_commute)
  finally show ?case using 4 l by simp
qed simp_all

lemma encode_radix_enc:
  assumes "\<forall>x\<in>set n. 0 < x" "prod_list n \<le> INDEX_MAX" "cs \<in> grid_tuples n"
  shows "MultiDimIndexInSingleArray cs n = radix_enc cs n"
proof -
  have l: "length cs = length n" using assms(3) by (simp add: grid_tuples_def)
  show ?thesis
    unfolding MultiDimIndexInSingleArray_def
    using encode_fold[OF assms, of "length cs"] l code_sum_radix_enc[OF l] by simp
qed

lemma decode_fold:
  fixes n :: "int list" and idx :: int
  assumes "\<forall>x\<in>set n. 0 < x" "0 \<le> idx"
  shows "k \<le> length n \<Longrightarrow> k \<le> length coords \<Longrightarrow>
   fold (\<lambda>i (index, coords). let this_coord = index smod n ! i in (index sdiv n ! i, coords[i := this_coord]))
        [0..<k] (idx, coords)
   = (idx div prod_list (take k n),
      map (\<lambda>i. (idx div prod_list (take i n)) mod n ! i) [0..<k] @ drop k coords)"
proof (induction k)
  case 0
  then show ?case by simp
next
  case (Suc k)
  have p: "0 < prod_list (take k n)" using assms(1) by (rule prod_take_pos)
  have q: "0 \<le> idx div prod_list (take k n)" using assms(2) p by (simp add: pos_imp_zdiv_nonneg_iff)
  have nk: "0 < n ! k" using Suc.prems assms(1) by simp
  have len: "length (map (\<lambda>i. (idx div prod_list (take i n)) mod n ! i) [0..<k]) = k" by simp
  have kc: "k < length coords" using Suc.prems by simp
  have upd: "(map (\<lambda>i. (idx div prod_list (take i n)) mod n ! i) [0..<k] @ drop k coords)[k := v]
      = map (\<lambda>i. (idx div prod_list (take i n)) mod n ! i) [0..<k] @ v # drop (Suc k) coords" for v
    using kc by (simp add: list_update_append Cons_nth_drop_Suc[symmetric])
  have kn: "k < length n" using Suc.prems by simp
  have dv: "idx div prod_list (take k n) div n ! k = idx div prod_list (take (Suc k) n)"
    using p nk kn by (simp add: take_Suc_conv_app_nth zdiv_zmult2_eq)
  have sd: "idx div prod_list (take k n) sdiv n ! k = idx div prod_list (take (Suc k) n)"
    using sdiv_nonneg[OF q nk] dv by simp
  have sm: "idx div prod_list (take k n) smod n ! k = idx div prod_list (take k n) mod n ! k"
    using smod_nonneg[OF q nk] by simp
  have "fold (\<lambda>i (index, coords). let this_coord = index smod n ! i in (index sdiv n ! i, coords[i := this_coord]))
        [0..<Suc k] (idx, coords) =
     (\<lambda>(index, coords). let this_coord = index smod n ! k in (index sdiv n ! k, coords[k := this_coord]))
       (idx div prod_list (take k n),
      map (\<lambda>i. (idx div prod_list (take i n)) mod n ! i) [0..<k] @ drop k coords)"
    using Suc.IH Suc.prems by simp
  also have "\<dots> = (idx div prod_list (take (Suc k) n),
      map (\<lambda>i. (idx div prod_list (take i n)) mod n ! i) [0..<Suc k] @ drop (Suc k) coords)"
    by (simp only: Let_def prod.case sd sm upd) simp
  finally show ?case .
qed

lemma decode_map:
  fixes n :: "int list" and idx :: int
  assumes "\<forall>x\<in>set n. 0 < x" "0 \<le> idx" "length coords = length n"
  shows "SingleDimIndexInMultiArray n idx coords
         = map (\<lambda>i. (idx div prod_list (take i n)) mod n ! i) [0..<length n]"
  unfolding SingleDimIndexInMultiArray_def
  using decode_fold[OF assms(1,2), of "length coords" coords] assms(3) by simp

lemma decode_radix_dec:
  fixes n :: "int list" and idx :: int
  assumes "\<forall>x\<in>set n. 0 < x" "0 \<le> idx"
  shows "map (\<lambda>i. (idx div prod_list (take i n)) mod n ! i) [0..<length n] = radix_dec n idx"
  using assms
proof (induction n arbitrary: idx)
  case Nil
  then show ?case by simp
next
  case (Cons a n)
  have a: "0 < a" using Cons.prems by simp
  have q: "0 \<le> idx div a" using a Cons.prems by (simp add: pos_imp_zdiv_nonneg_iff)
  have "map (\<lambda>i. (idx div prod_list (take i (a # n))) mod (a # n) ! i) [0..<length (a # n)]
      = idx mod a # map (\<lambda>i. (idx div (a * prod_list (take i n))) mod n ! i) [0..<length n]"
    by (simp add: upt_conv_Cons map_Suc_upt[symmetric] del: upt_Suc)
  also have "\<dots> = idx mod a # map (\<lambda>i. (idx div a div prod_list (take i n)) mod n ! i) [0..<length n]"
  proof -
    have "0 \<le> prod_list (take i n)" for i
      using prod_take_pos[of n i] Cons.prems(1) by simp
    then show ?thesis by (simp add: zdiv_zmult2_eq)
  qed
  also have "\<dots> = idx mod a # radix_dec n (idx div a)"
    using Cons.IH[of "idx div a"] Cons.prems q by simp
  finally show ?case by simp
qed

lemma int_div_less:
  assumes "0 < (a::int)" "idx < a * p"
  shows "idx div a < p"
proof (rule ccontr)
  assume "\<not> idx div a < p"
  then have "p \<le> idx div a" by simp
  then have "a * p \<le> a * (idx div a)" using assms(1) by (simp add: mult_left_mono)
  moreover have "a * (idx div a) + idx mod a = idx" by simp
  moreover have "0 \<le> idx mod a" using assms(1) by simp
  ultimately show False using assms(2) by linarith
qed

lemma radix_enc_dec:
  "\<forall>x\<in>set n. 0 < x \<Longrightarrow> 0 \<le> idx \<Longrightarrow> idx < prod_list n \<Longrightarrow> radix_enc (radix_dec n idx) n = idx"
proof (induction n arbitrary: idx)
  case Nil
  then show ?case by simp
next
  case (Cons a n)
  have a: "0 < a" using Cons.prems by simp
  have "idx div a < prod_list n"
    using Cons.prems a by (simp add: int_div_less)
  moreover have "0 \<le> idx div a" using a Cons.prems by (simp add: pos_imp_zdiv_nonneg_iff)
  ultimately have "radix_enc (radix_dec n (idx div a)) n = idx div a"
    using Cons by simp
  then show ?case by (simp add: mult.commute)
qed

lemma radix_dec_length: "length (radix_dec n idx) = length n"
  by (induction n arbitrary: idx) simp_all

lemma radix_dec_range:
  "\<forall>x\<in>set n. 0 < x \<Longrightarrow> d < length n \<Longrightarrow> 0 \<le> radix_dec n idx ! d \<and> radix_dec n idx ! d < n ! d"
proof (induction n arbitrary: idx d)
  case Nil
  then show ?case by simp
next
  case (Cons a n)
  then show ?case by (cases d) simp_all
qed

lemma radix_dec_grid: "\<forall>x\<in>set n. 0 < x \<Longrightarrow> radix_dec n idx \<in> grid_tuples n"
  by (simp add: grid_tuples_def radix_dec_length radix_dec_range)

lemma radix_enc_range:
  "cs \<in> grid_tuples n \<Longrightarrow> 0 \<le> radix_enc cs n \<and> radix_enc cs n < prod_list n"
proof (induction cs n rule: list_induct2')
  case (4 c cs n ns)
  have t: "cs \<in> grid_tuples ns" using 4(2) unfolding grid_tuples_def by auto
  have c: "0 \<le> c" "c < n" using 4(2) unfolding grid_tuples_def by auto
  from 4(1)[OF t] have r: "0 \<le> radix_enc cs ns" "radix_enc cs ns + 1 \<le> prod_list ns" by simp_all
  have "c + n * radix_enc cs ns < n + n * radix_enc cs ns" using c by simp
  also have "\<dots> = n * (radix_enc cs ns + 1)" by (simp add: algebra_simps)
  also have "\<dots> \<le> n * prod_list ns" using r(2) c by (intro mult_left_mono) simp_all
  finally show ?case using c r by simp
qed (simp_all add: grid_tuples_def)

lemma radix_dec_enc:
  "cs \<in> grid_tuples n \<Longrightarrow> radix_dec n (radix_enc cs n) = cs"
proof (induction cs n rule: list_induct2')
  case (4 c cs n ns)
  have t: "cs \<in> grid_tuples ns" using 4(2) unfolding grid_tuples_def by auto
  have c: "0 \<le> c" "c < n" using 4(2) unfolding grid_tuples_def by auto
  have "(c + n * radix_enc cs ns) mod n = c" using c by simp
  moreover have "(c + n * radix_enc cs ns) div n = radix_enc cs ns" using c by simp
  ultimately show ?case using 4(1)[OF t] by simp
qed (simp_all add: grid_tuples_def)

text \<open>Claim C9.  On a grid all of whose box counts are positive and whose number of
  boxes \<open>nboxes\<close> fits \<^verbatim>\<open>index_t\<close> (it is at most \<open>INDEX_MAX\<close>), with a coordinate
  vector of the grid's dimension: for every box id in \<open>[0, nboxes)\<close>, decoding the id
  with \<^verbatim>\<open>SingleDimIndexInMultiArray_\<close> and encoding the coordinates again with
  \<^verbatim>\<open>MultiDimIndexInSingleArray_\<close> gives the id back, and the encoding is a bijection
  between the coordinate tuples of the grid and \<open>[0, nboxes)\<close>.\<close>

theorem box_id_bijection:
  assumes pos: "\<forall>x\<in>set nsides. 0 < x" and len: "length coords = length nsides"
    and bound: "prod_list nsides \<le> INDEX_MAX"
  shows "(\<forall>ibox\<in>{0..<prod_list nsides}.
            MultiDimIndexInSingleArray (SingleDimIndexInMultiArray nsides ibox coords) nsides = ibox)
       \<and> bij_betw (\<lambda>cs. MultiDimIndexInSingleArray cs nsides) (grid_tuples nsides) {0..<prod_list nsides}"
proof
  have dec: "SingleDimIndexInMultiArray nsides ibox coords = radix_dec nsides ibox" if "0 \<le> ibox" for ibox
    using decode_map[OF pos that len] decode_radix_dec[OF pos that] by simp
  have enc: "MultiDimIndexInSingleArray cs nsides = radix_enc cs nsides" if "cs \<in> grid_tuples nsides" for cs
    using that by (rule encode_radix_enc[OF pos bound])
  show "\<forall>ibox\<in>{0..<prod_list nsides}.
            MultiDimIndexInSingleArray (SingleDimIndexInMultiArray nsides ibox coords) nsides = ibox"
    using pos by (simp add: dec enc radix_dec_grid radix_enc_dec)
  have "bij_betw (\<lambda>cs. radix_enc cs nsides) (grid_tuples nsides) {0..<prod_list nsides}"
  proof (rule bij_betw_byWitness[where f' = "radix_dec nsides"])
    show "\<forall>a\<in>grid_tuples nsides. radix_dec nsides (radix_enc a nsides) = a"
      by (simp add: radix_dec_enc)
    show "\<forall>a'\<in>{0..<prod_list nsides}. radix_enc (radix_dec nsides a') nsides = a'"
      using pos by (simp add: radix_enc_dec)
    show "(\<lambda>cs. radix_enc cs nsides) ` grid_tuples nsides \<subseteq> {0..<prod_list nsides}"
      using radix_enc_range by auto
    show "radix_dec nsides ` {0..<prod_list nsides} \<subseteq> grid_tuples nsides"
      using pos by (auto simp: radix_dec_grid)
  qed
  then show "bij_betw (\<lambda>cs. MultiDimIndexInSingleArray cs nsides) (grid_tuples nsides) {0..<prod_list nsides}"
    using enc by (simp cong: bij_betw_cong)
qed

theorem box_id_bijection_witness:
  "length [0, 0 :: int] = length [10, 4 :: int] \<and> (0 :: int) < 10 \<and> (0 :: int) < 4
   \<and> prod_list [10, 4] \<le> INDEX_MAX
   \<and> (0 :: int) \<le> 27 \<and> (27 :: int) < prod_list [10, 4]
   \<and> MultiDimIndexInSingleArray (SingleDimIndexInMultiArray [10, 4] 27 [0, 0]) [10, 4] = 27"
proof -
  have h1: "\<forall>x\<in>set [10, 4 :: int]. 0 < x" by simp
  have h2: "length [0, 0 :: int] = length [10, 4 :: int]" by simp
  have h3: "(27 :: int) \<in> {0..<prod_list [10, 4]}" by simp
  have h4: "prod_list [10, 4] \<le> INDEX_MAX" by (simp add: INDEX_MAX_def)
  from box_id_bijection[OF h1 h2 h4] h3
  have "MultiDimIndexInSingleArray (SingleDimIndexInMultiArray [10, 4] 27 [0, 0]) [10, 4] = 27"
    by blast
  then show ?thesis using h4 by simp
qed

text \<open>Beyond that range the code is no longer one-to-one: on the grid of
  \<open>65536 \<times> 65536 \<times> 2\<close> boxes the tuples \<open>(0, 0, 0)\<close> and \<open>(0, 0, 1)\<close> both get the
  id 0.\<close>

lemma box_id_wraps:
  "MultiDimIndexInSingleArray [0, 0, 1] [65536, 65536, 2] = 0
   \<and> MultiDimIndexInSingleArray [0, 0, 0] [65536, 65536, 2] = 0"
  by (simp add: MultiDimIndexInSingleArray_def wrap_index_def)

subsection \<open>Neighbour enumeration\<close>

text \<open>The local vectors of \<^verbatim>\<open>MakeNeighbors_\<close> have size 0, so no loop over them runs:
  the single pass of the enumeration finds the empty coordinate vector on the grid
  and appends its code, 0.\<close>

lemma to_index_t_1: "to_index_t 1 = 1"
  by (simp add: to_index_t_def INDEX_MIN_def INDEX_MAX_def)

lemma MakeNeighbors_const: "MakeNeighbors ibox nsides kdis ret = ret @ [0]"
  by (simp add: MakeNeighbors_def reserve_def SingleDimIndexInMultiArray_def IsOngrid_def
      MultiDimIndexInSingleArray_def pow_index_def to_index_t_1)

lemma box_coords_10_4:
  "box_coords [10, 4] 0 = [0, 0]" "box_coords [10, 4] 5 = [5, 0]"
  by (simp_all add: box_coords_def SingleDimIndexInMultiArray_def
      signed_modulo_int_def signed_divide_int_def)

text \<open>At the input \<open>ibox = 5\<close>, \<open>nsides = [10, 4]\<close>, \<open>kdis = 1\<close> the neighbourhood of
  the specification holds box 5 itself, whose coordinates are \<open>(5, 0)\<close>, and does not
  hold box 0, at \<open>(0, 0)\<close> and so at distance 5.\<close>

lemma spec_neighbors_5:
  "5 \<in> spec_neighbors 5 [10, 4] 1 \<and> 0 \<notin> spec_neighbors 5 [10, 4] 1"
proof -
  have a: "5 \<in> spec_neighbors 5 [10, 4] 1"
    by (simp add: spec_neighbors_def)
  have "\<not> (\<forall>d<length [10, 4 :: int]. \<bar>box_coords [10, 4] 0 ! d - box_coords [10, 4] 5 ! d\<bar> \<le> 1)"
    by (simp add: box_coords_10_4) (rule exI[of _ 0], simp)
  then have b: "0 \<notin> spec_neighbors 5 [10, 4] 1"
    by (simp add: spec_neighbors_def)
  from a b show ?thesis by simp
qed

lemma MakeNeighbors_not_spec:
  "set (MakeNeighbors 5 [10, 4] 1 []) \<noteq> spec_neighbors 5 [10, 4] 1"
  using spec_neighbors_5 by (auto simp: MakeNeighbors_const)

text \<open>Claim C7, at the input \<open>ibox = 5\<close>, \<open>nsides = [10, 4]\<close>, \<open>kdis = 1\<close>, \<open>ret\<close>
  empty: the enumeration returns the single id 0, where the claim has the six boxes
  4, 5, 6, 14, 15 and 16.\<close>

theorem MakeNeighbors_failing_input:
  "MakeNeighbors 5 [10, 4] 1 [] = [0]"
  by (simp add: MakeNeighbors_const)


section \<open>Properties of the assignment\<close>

lemma prod_list_pos: "\<forall>x\<in>set n. 0 < x \<Longrightarrow> 0 < prod_list (n::int list)"
  by (induction n) simp_all

lemma boxnum_fold_range:
  fixes nsides :: "int list"
  shows "\<forall>d\<in>set ds. 0 < nsides ! d \<Longrightarrow> 0 \<le> acc \<Longrightarrow> acc < P
     \<Longrightarrow> P * prod_list (map ((!) nsides) ds) \<le> INDEX_MAX \<Longrightarrow>
     0 \<le> fold (\<lambda>di boxnum.
             let nside = nsides ! di;
                 h = sidelengths ! di;
                 binnum = to_index_t (of_int \<lfloor>(elem pset di r - mincoords ! di) / h\<rfloor>);
                 binnum = max 0 (min binnum (wrap_index (nside - 1)))
             in wrap_index (wrap_index (boxnum * nside) + binnum)) ds acc
   \<and> fold (\<lambda>di boxnum.
             let nside = nsides ! di;
                 h = sidelengths ! di;
                 binnum = to_index_t (of_int \<lfloor>(elem pset di r - mincoords ! di) / h\<rfloor>);
                 binnum = max 0 (min binnum (wrap_index (nside - 1)))
             in wrap_index (wrap_index (boxnum * nside) + binnum)) ds acc
       < P * prod_list (map ((!) nsides) ds)"
proof (induction ds arbitrary: acc P)
  case Nil
  then show ?case by simp
next
  case (Cons d ds)
  define t where "t = to_index_t (of_int \<lfloor>(elem pset d r - mincoords ! d) / sidelengths ! d\<rfloor>)"
  define b where "b = max 0 (min t (nsides ! d - 1))"
  define R where "R = prod_list (map ((!) nsides) ds)"
  have n: "0 < nsides ! d" using Cons.prems by simp
  have R: "1 \<le> R" using prod_list_pos[of "map ((!) nsides) ds"] Cons.prems(1) by (simp add: R_def)
  have P: "1 \<le> P" using Cons.prems(2,3) by simp
  have tot: "P * nsides ! d * R \<le> INDEX_MAX" using Cons.prems(4) by (simp add: R_def mult.assoc)
  have "P * nsides ! d * 1 \<le> P * nsides ! d * R" using P n R by (intro mult_left_mono) simp_all
  then have pn: "P * nsides ! d \<le> INDEX_MAX" using tot by simp
  have "1 * nsides ! d \<le> P * nsides ! d" using P n by (intro mult_right_mono) simp_all
  then have nmax: "nsides ! d \<le> INDEX_MAX" using pn by simp
  have b: "0 \<le> b" "b < nsides ! d" using n by (auto simp: b_def)
  have lo: "0 \<le> acc * nsides ! d + b" using Cons.prems(2) n b by simp
  have l1: "0 \<le> acc * nsides ! d" using Cons.prems(2) n by simp
  have "acc + 1 \<le> P" using Cons.prems(3) by simp
  then have "(acc + 1) * nsides ! d \<le> P * nsides ! d" using n by (intro mult_right_mono) simp_all
  then have hi: "acc * nsides ! d + b < P * nsides ! d" using b by (simp add: algebra_simps)
  have w0: "wrap_index (nsides ! d - 1) = nsides ! d - 1"
    using n nmax by (intro wrap_index_id) (simp_all add: INDEX_MIN_def)
  have w1: "wrap_index (acc * nsides ! d) = acc * nsides ! d"
    using l1 hi b pn by (intro wrap_index_id) (simp_all add: INDEX_MIN_def)
  have w2: "wrap_index (acc * nsides ! d + b) = acc * nsides ! d + b"
    using lo hi pn by (intro wrap_index_id) (simp_all add: INDEX_MIN_def)
  have d: "\<forall>d\<in>set ds. 0 < nsides ! d" using Cons.prems(1) by simp
  have tot': "P * nsides ! d * prod_list (map ((!) nsides) ds) \<le> INDEX_MAX"
    using tot by (simp add: R_def)
  from Cons.IH[OF d lo hi tot'] show ?case
    by (simp add: Let_def w0 w1 w2 flip: t_def b_def)
qed

lemma Assign_boxnum_range:
  assumes "\<forall>x\<in>set nsides. 0 < x" "dim' = length nsides" "prod_list nsides \<le> INDEX_MAX"
  shows "0 \<le> Assign_boxnum pset dim' r nsides sidelengths mincoords
       \<and> Assign_boxnum pset dim' r nsides sidelengths mincoords < prod_list nsides"
proof -
  have a: "\<forall>d\<in>set (rev [0..<dim']). 0 < nsides ! d" using assms by simp
  have "prod_list (map ((!) nsides) (rev [0..<dim'])) = prod_list (rev (map ((!) nsides) [0..<dim']))"
    by (simp add: rev_map)
  also have "\<dots> = prod_list nsides" using assms(2) by (simp add: prod_list.rev map_nth del: rev_map)
  finally have p: "prod_list (map ((!) nsides) (rev [0..<dim'])) = prod_list nsides" .
  have b: "1 * prod_list (map ((!) nsides) (rev [0..<dim'])) \<le> INDEX_MAX"
    using p assms(3) by simp
  show ?thesis
    unfolding Assign_boxnum_def
    using boxnum_fold_range[OF a _ _ b, of 0 sidelengths pset r mincoords] p by simp
qed

lemma push_back_mset:
  "b < length v \<Longrightarrow> mset (concat (v[b := v ! b @ [x]])) = mset (concat v) + {#x#}"
proof -
  assume b: "b < length v"
  have "concat (v[b := v ! b @ [x]]) = concat (take b v) @ (v ! b @ [x]) @ concat (drop (Suc b) v)"
    using b by (simp add: upd_conv_take_nth_drop)
  moreover have "concat v = concat (take b v) @ v ! b @ concat (drop (Suc b) v)"
    using b id_take_nth_drop[of b v] by (metis concat.simps(2) concat_append)
  ultimately show ?thesis by simp
qed

lemma assign_loop_mset:
  fixes f :: "nat \<Rightarrow> int"
  assumes "\<And>r. 0 \<le> f r \<and> f r < int (length v)"
  shows "mset (concat (fold (\<lambda>r v. let boxnum = f r
                                    in if 0 \<le> boxnum \<and> nat boxnum < length v
                                       then v[nat boxnum := v ! nat boxnum @ [int r]] else v) rs v))
         = mset (concat v) + mset (map int rs)
       \<and> length (fold (\<lambda>r v. let boxnum = f r
                              in if 0 \<le> boxnum \<and> nat boxnum < length v
                                 then v[nat boxnum := v ! nat boxnum @ [int r]] else v) rs v)
         = length v"
  using assms
proof (induction rs arbitrary: v)
  case Nil
  then show ?case by simp
next
  case (Cons r rs)
  have b: "nat (f r) < length v" "0 \<le> f r" using Cons.prems[of r] by linarith+
  let ?v = "v[nat (f r) := v ! nat (f r) @ [int r]]"
  have "\<And>r. 0 \<le> f r \<and> f r < int (length ?v)" using Cons.prems by simp
  from Cons.IH[OF this] show ?case
    using b by (simp add: Let_def push_back_mset[OF b(1)])
qed

text \<open>What the loops of \<^verbatim>\<open>Assign_\<close> do when the two outer vectors hold one list per
  box: on a grid whose box counts are all positive, as many as the points have
  coordinates, and whose number of boxes fits \<^verbatim>\<open>index_t\<close>, every reference index
  \<open>0, ..., Nr - 1\<close> is added exactly once to the reference lists and every query index
  \<open>0, ..., Nq - 1\<close> exactly once to the query lists; the box number of every point,
  also of one on a boundary of the grid, is clamped into \<open>[0, nboxes)\<close>.\<close>

lemma Assign_on_sized_lists:
  assumes pos: "\<forall>x\<in>set nsides. 0 < x"
    and dims: "length nsides = n_rows (qset s)"
    and bound: "prod_list nsides \<le> INDEX_MAX"
    and nq: "length queries_assigned = nat (prod_list nsides)"
    and nr: "length references_assigned = nat (prod_list nsides)"
    and res: "Assign s nallbx nsides sidelengths mincoords center queries_assigned references_assigned
              = (center', queries_assigned', references_assigned')"
  shows "mset (concat references_assigned')
           = mset (concat references_assigned) + mset (map int [0..<n_cols (rset s)])
       \<and> mset (concat queries_assigned')
           = mset (concat queries_assigned) + mset (map int [0..<n_cols (qset s)])
       \<and> length references_assigned' = nat (prod_list nsides)
       \<and> length queries_assigned' = nat (prod_list nsides)"
proof -
  have rng: "0 \<le> Assign_boxnum pset (n_rows (qset s)) r nsides sidelengths mincoords
       \<and> Assign_boxnum pset (n_rows (qset s)) r nsides sidelengths mincoords < int (nat (prod_list nsides))"
    for pset r
    using Assign_boxnum_range[OF pos dims[symmetric] bound, of pset r sidelengths mincoords] by simp
  have r: "references_assigned' =
      fold (\<lambda>r v. let boxnum = Assign_boxnum (rset s) (n_rows (qset s)) r nsides sidelengths mincoords
                   in if 0 \<le> boxnum \<and> nat boxnum < length v
                      then v[nat boxnum := v ! nat boxnum @ [int r]] else v)
           [0..<n_cols (rset s)] references_assigned"
    using res by (simp add: Assign_def Let_def)
  have q: "queries_assigned' =
      fold (\<lambda>r v. let boxnum = Assign_boxnum (qset s) (n_rows (qset s)) r nsides sidelengths mincoords
                   in if 0 \<le> boxnum \<and> nat boxnum < length v
                      then v[nat boxnum := v ! nat boxnum @ [int r]] else v)
           [0..<n_cols (qset s)] queries_assigned"
    using res by (simp add: Assign_def Let_def)
  show ?thesis
    unfolding r q
    using assign_loop_mset[of "\<lambda>r. Assign_boxnum (rset s) (n_rows (qset s)) r nsides sidelengths mincoords"
            references_assigned "[0..<n_cols (rset s)]"]
          assign_loop_mset[of "\<lambda>r. Assign_boxnum (qset s) (n_rows (qset s)) r nsides sidelengths mincoords"
            queries_assigned "[0..<n_cols (qset s)]"]
          rng nq nr
    by simp
qed

text \<open>The outer vectors that \<^verbatim>\<open>Compute\<close> passes are default-constructed and then only
  \<^verbatim>\<open>reserve\<close>d (lines 1197-1202), so they hold no list at all, and every
  \<^verbatim>\<open>push_back\<close> of \<^verbatim>\<open>Assign_\<close> is at a position beyond their size: whatever the
  points and the grid, no index is assigned.\<close>

lemma assign_loop_empty:
  "fold (\<lambda>r v. if 0 \<le> f r \<and> nat (f r) < length v
                then v[nat (f r) := v ! nat (f r) @ [int r]] else v) rs [] = []"
  by (induction rs) simp_all

lemma Assign_on_reserved:
  "Assign s nallbx nsides sidelengths mincoords center (reserve k []) (reserve k' [])
   = (center, [], [])"
  by (simp add: Assign_def reserve_def Let_def assign_loop_empty)

text \<open>Claim C8, at the run of \<^verbatim>\<open>Compute\<close> on the reference points 0 and 1 and the query
  point 1 on the line, with bandwidth 1 and tolerance \<open>1/10\<close>: the grid has the two
  boxes \<open>[0, 1/2)\<close> and \<open>[1/2, 1]\<close>, and \<^verbatim>\<open>Assign_\<close> is called with the two outer vectors
  that \<^verbatim>\<open>Compute\<close> has \<^verbatim>\<open>reserve\<close>d for two boxes.  It leaves both without a list,
  where the claim has the reference lists \<open>[0]\<close> and \<open>[1]\<close> and the query lists \<open>[]\<close>
  and \<open>[0]\<close>.\<close>

theorem Assign_failing_input:
  "Assign ex2_kde 2 [2] [1 / 2] [0] (new_mat 1 2) (reserve 2 []) (reserve 2 [])
   = (new_mat 1 2, [], [])"
  by (simp add: Assign_def reserve_def Let_def assign_loop_empty)



section \<open>Properties of the expansion routines\<close>

text \<open>A write to a vector leaves every other object of the store as it is.\<close>

lemma heap_vec_set_other: "a \<noteq> b \<Longrightarrow> heap (vec_set a i v st) b = heap st b"
  by (simp add: vec_set_def)

lemma brk_vec_set: "brk (vec_set a i v st) = brk st"
  by (simp add: vec_set_def)

lemma vec_from_col_fst: "fst (vec_from_col M j st) = brk st"
  by (simp add: vec_from_col_def)

lemma vec_from_col_heap: "b < brk st \<Longrightarrow> heap (snd (vec_from_col M j st)) b = heap st b"
  by (simp add: vec_from_col_def)

lemma vec_from_col_brk: "brk (snd (vec_from_col M j st)) = Suc (brk st)"
  by (simp add: vec_from_col_def)

lemma fold_vec_set_other:
  "a \<noteq> b \<Longrightarrow> heap (fold (\<lambda>i st. vec_set a i (g i st) st) xs st) b = heap st b"
  by (induction xs arbitrary: st) (simp_all add: heap_vec_set_other)

lemma CMC_row_other:
  "A_k \<noteq> b \<Longrightarrow>
   heap (snd (snd (CMC_row s A_k dim' p_alpha totalnumcoeffs bw x_R rows r x))) b
     = heap (snd (snd x)) b"
  by (cases x) (simp add: CMC_row_def Let_def fold_vec_set_other)

lemma fold_CMC_row_other:
  "A_k \<noteq> b \<Longrightarrow>
   heap (snd (snd (fold (CMC_row s A_k dim' p_alpha totalnumcoeffs bw x_R rows) rs x))) b
     = heap (snd (snd x)) b"
  by (induction rs arbitrary: x) (simp_all add: CMC_row_other)

lemma ComputeMultipoleCoeffs_frame:
  assumes "b < brk st"
  shows "heap (snd (snd (ComputeMultipoleCoeffs s mcoeffs dim' p_alpha totalnumcoeffs ref_box_num
                           bwsqd_two rows x_R st))) b = heap st b"
proof -
  obtain A_k st1 where v: "vec_from_col mcoeffs ref_box_num st = (A_k, st1)"
    by (cases "vec_from_col mcoeffs ref_box_num st")
  have A: "A_k = brk st" using v vec_from_col_fst[of mcoeffs ref_box_num st] by simp
  have ne: "A_k \<noteq> b" using A assms by simp
  have h1: "heap st1 b = heap st b"
    using v vec_from_col_heap[OF assms, of mcoeffs ref_box_num] by simp
  show ?thesis
    unfolding ComputeMultipoleCoeffs_def v
    by (simp add: Let_def case_prod_unfold fold_vec_set_other[OF ne] fold_CMC_row_other[OF ne]
        heap_vec_set_other[OF ne] h1)
qed

lemma DLA_row_other:
  "arr \<noteq> b \<Longrightarrow>
   heap (snd (snd (snd (DLA_row s arr dim' p_alpha totalnumcoeffs limit2 bandwidth neg dest rows r x)))) b
     = heap (snd (snd (snd x))) b"
  by (cases x) (simp add: DLA_row_def Let_def fold_vec_set_other)

lemma fold_DLA_row_other:
  "arr \<noteq> b \<Longrightarrow>
   heap (snd (snd (snd (fold (DLA_row s arr dim' p_alpha totalnumcoeffs limit2 bandwidth neg dest rows)
                          rs x)))) b
     = heap (snd (snd (snd x))) b"
  by (induction rs arbitrary: x) (simp_all add: DLA_row_other)

lemma DirectLocalAccumulation_frame:
  assumes "b < brk st"
  shows "heap (snd (DirectLocalAccumulation s rows query_box_num locexps delta dest_hrcentroid
                      p_alpha totalnumcoeffs st)) b = heap st b"
proof -
  obtain arr st1 where v: "vec_from_col locexps query_box_num st = (arr, st1)"
    by (cases "vec_from_col locexps query_box_num st")
  have A: "arr = brk st" using v vec_from_col_fst[of locexps query_box_num st] by simp
  have ne: "arr \<noteq> b" using A assms by simp
  have h1: "heap st1 b = heap st b"
    using v vec_from_col_heap[OF assms, of locexps query_box_num] by simp
  show ?thesis
    unfolding DirectLocalAccumulation_def v
    by (simp add: Let_def case_prod_unfold fold_DLA_row_other[OF ne] h1)
qed

lemma TranslateMultipoleToLocal_frame:
  assumes "b < brk st"
  shows "heap (snd (TranslateMultipoleToLocal s ref_box_num query_box_num mcoeffsb lcoeffsb p_alpha
                      totalnumcoeffs bwsqd_2 hrcentroid dest_hrcentroid st)) b = heap st b"
proof -
  obtain lcoeffs st1 where v1: "vec_from_col lcoeffsb query_box_num st = (lcoeffs, st1)"
    by (cases "vec_from_col lcoeffsb query_box_num st")
  obtain mcoeffs st2 where v2: "vec_from_col mcoeffsb ref_box_num st1 = (mcoeffs, st2)"
    by (cases "vec_from_col mcoeffsb ref_box_num st1")
  have A: "lcoeffs = brk st" using v1 vec_from_col_fst[of lcoeffsb query_box_num st] by simp
  have ne: "lcoeffs \<noteq> b" using A assms by simp
  have h1: "heap st1 b = heap st b"
    using v1 vec_from_col_heap[OF assms, of lcoeffsb query_box_num] by simp
  have "brk st1 = Suc (brk st)" using v1 vec_from_col_brk[of lcoeffsb query_box_num st] by simp
  then have "b < brk st1" using assms by simp
  then have h2: "heap st2 b = heap st1 b"
    using v2 vec_from_col_heap[of b st1 mcoeffsb ref_box_num] by simp
  show ?thesis
    unfolding TranslateMultipoleToLocal_def v1 v2
    by (simp add: Let_def case_prod_unfold v2 fold_vec_set_other[OF ne] h1 h2)
qed


text \<open>Claim C4.  For a coefficient matrix \<open>M\<close> that exists when the routine is called
  (its address is below the next free one): after \<^verbatim>\<open>ComputeMultipoleCoeffs_\<close> with
  \<open>M\<close> as \<^verbatim>\<open>mcoeffs\<close>, after \<^verbatim>\<open>TranslateMultipoleToLocal_\<close> with \<open>M\<close> as \<^verbatim>\<open>lcoeffsb\<close>
  and after \<^verbatim>\<open>DirectLocalAccumulation_\<close> with \<open>M\<close> as \<^verbatim>\<open>locexps\<close>, the matrix is what it
  was before the call.  Each routine writes only to the vector it constructed from
  the column.\<close>

theorem coefficient_matrices_unchanged:
  assumes "M < brk st"
  shows "heap (snd (snd (ComputeMultipoleCoeffs s M dim' p_alpha totalnumcoeffs ref_box_num
                           bwsqd_two rows x_R st))) M = heap st M
       \<and> heap (snd (TranslateMultipoleToLocal s ref_box_num query_box_num mcoeffsb M p_alpha
                      totalnumcoeffs bwsqd hrcentroid dest_hrcentroid st)) M = heap st M
       \<and> heap (snd (DirectLocalAccumulation s rows' query_box_num M delta dest_hrcentroid
                      p_alpha totalnumcoeffs st)) M = heap st M"
  using assms
  by (simp add: ComputeMultipoleCoeffs_frame TranslateMultipoleToLocal_frame
      DirectLocalAccumulation_frame)

lemma ex_eval_simps:
  "new_vec (Suc 0) = [undefined]" "new_mat (Suc 0) (Suc 0) = \<lparr>n_rows = Suc 0, n_cols = Suc 0, mem = [undefined]\<rparr>"
  by (simp_all add: new_vec_def new_mat_def)

lemma DLA_ex:
  "DirectLocalAccumulation ex_kde [0] 0 0 1 [0] 1 1 (ex_store c)
   = (2, (ex_store c)\<lparr>heap := (heap (ex_store c))(2 := \<lparr>n_rows = 1, n_cols = 1, mem = [1]\<rparr>), brk := 3\<rparr>)"
  by (simp add: DirectLocalAccumulation_def DLA_row_def hermite_row_def ex_kde_def ex_store_def
      vec_from_col_def vec_get_def vec_set_def col_def elem_def mat_set_def ex_eval_simps Let_def)

lemma TML_ex:
  "TranslateMultipoleToLocal ex_kde 0 0 1 0 1 1 1 [0] [0] (ex_store 1)
   = (2, (ex_store 1)\<lparr>heap := (heap (ex_store 1))(3 := \<lparr>n_rows = 1, n_cols = 1, mem = [1]\<rparr>,
                                                    2 := \<lparr>n_rows = 1, n_cols = 1, mem = [1]\<rparr>), brk := 4\<rparr>)"
  by (simp add: TranslateMultipoleToLocal_def hermite_row_def ex_kde_def ex_store_def
      vec_from_col_def vec_get_def vec_set_def col_def elem_def mat_set_def ex_eval_simps Let_def)

lemma CMC_ex:
  "ComputeMultipoleCoeffs ex_kde 1 1 1 1 0 2 [0] [0] (ex_store 0)
   = (Computed, 2, (ex_store 0)\<lparr>heap := (heap (ex_store 0))(2 := \<lparr>n_rows = 1, n_cols = 1, mem = [1]\<rparr>), brk := 3\<rparr>)"
  by (simp add: ComputeMultipoleCoeffs_def ex_kde_def ex_store_def
      vec_from_col_def vec_get_def vec_set_def col_def elem_def mat_set_def ex_eval_simps Let_def)

theorem coefficient_matrices_unchanged_witness:
  "(0 :: nat) < brk (ex_store 0) \<and> (1 :: nat) < brk (ex_store 0)
   \<and> heap (snd (snd (ComputeMultipoleCoeffs ex_kde 1 1 1 1 0 2 [0] [0] (ex_store 0)))) 1
       = \<lparr>n_rows = 1, n_cols = 1, mem = [0]\<rparr>
   \<and> heap (snd (TranslateMultipoleToLocal ex_kde 0 0 1 0 1 1 1 [0] [0] (ex_store 0))) 0
       = \<lparr>n_rows = 1, n_cols = 1, mem = [0]\<rparr>
   \<and> heap (snd (DirectLocalAccumulation ex_kde [0] 0 0 1 [0] 1 1 (ex_store 0))) 0
       = \<lparr>n_rows = 1, n_cols = 1, mem = [0]\<rparr>"
proof -
  have h0: "(0 :: nat) < brk (ex_store 0)" and h1: "(1 :: nat) < brk (ex_store 0)"
    by (simp_all add: ex_store_def)
  have v: "heap (ex_store 0) 0 = \<lparr>n_rows = 1, n_cols = 1, mem = [0]\<rparr>"
          "heap (ex_store 0) 1 = \<lparr>n_rows = 1, n_cols = 1, mem = [0]\<rparr>"
    by (simp_all add: ex_store_def)
  from coefficient_matrices_unchanged[OF h1, where s = ex_kde and dim' = 1 and p_alpha = 1
         and totalnumcoeffs = 1 and ref_box_num = 0 and bwsqd_two = 2 and rows = "[0]"
         and x_R = "[0]"]
       coefficient_matrices_unchanged[OF h0, where s = ex_kde and p_alpha = 1
         and totalnumcoeffs = 1 and ref_box_num = 0 and query_box_num = 0 and mcoeffsb = 1
         and bwsqd = 1 and hrcentroid = "[0]" and dest_hrcentroid = "[0]" and rows' = "[0]"
         and delta = 1]
       h0 h1 v
  show ?thesis by simp
qed

lemma CMC_ex2:
  "ComputeMultipoleCoeffs ex_kde 1 1 1 1 0 2 [0] [0]
     ((ex_store 0)\<lparr>heap := (heap (ex_store 0))(2 := \<lparr>n_rows = 1, n_cols = 1, mem = [1]\<rparr>), brk := 3\<rparr>)
   = (Computed, 3,
      (ex_store 0)\<lparr>heap := (heap (ex_store 0))(2 := \<lparr>n_rows = 1, n_cols = 1, mem = [1]\<rparr>,
                                                 3 := \<lparr>n_rows = 1, n_cols = 1, mem = [1]\<rparr>), brk := 4\<rparr>)"
  by (simp add: ComputeMultipoleCoeffs_def ex_kde_def ex_store_def
      vec_from_col_def vec_get_def vec_set_def col_def elem_def mat_set_def ex_eval_simps Let_def)

text \<open>Claim C2, on the smallest instance, whose matrix of local coefficients is zero.
  The accumulation of the one reference point, and the translation of a far-field
  expansion with coefficient 1, each compute the coefficient \<open>0 + 1 * exp 0 = 1\<close> in
  the local vector, and each leave the column of the box in the matrix at 0.\<close>

theorem DirectLocalAccumulation_failing_input:
  "col (heap (snd (DirectLocalAccumulation ex_kde [0] 0 0 1 [0] 1 1 (ex_store 0))) 0) 0 = [0]
   \<and> mem (heap (snd (DirectLocalAccumulation ex_kde [0] 0 0 1 [0] 1 1 (ex_store 0)))
              (fst (DirectLocalAccumulation ex_kde [0] 0 0 1 [0] 1 1 (ex_store 0)))) = [1]
   \<and> col (heap (snd (TranslateMultipoleToLocal ex_kde 0 0 1 0 1 1 1 [0] [0] (ex_store 1))) 0) 0 = [0]
   \<and> mem (heap (snd (TranslateMultipoleToLocal ex_kde 0 0 1 0 1 1 1 [0] [0] (ex_store 1)))
              (fst (TranslateMultipoleToLocal ex_kde 0 0 1 0 1 1 1 [0] [0] (ex_store 1)))) = [1]"
  by (simp only: DLA_ex TML_ex) (simp add: ex_store_def col_def)

text \<open>Claim C3, on the smallest instance, whose matrix of far-field coefficients is
  zero.  The first call for box 0 computes the coefficient 1 in the local vector and
  returns at the end; the column of the box in the matrix is still 0; the second
  call for the same box finds 0 there and computes again.\<close>

theorem ComputeMultipoleCoeffs_failing_input:
  "fst (ComputeMultipoleCoeffs ex_kde 1 1 1 1 0 2 [0] [0] (ex_store 0)) = Computed
   \<and> mem (heap (snd (snd (ComputeMultipoleCoeffs ex_kde 1 1 1 1 0 2 [0] [0] (ex_store 0))))
              (fst (snd (ComputeMultipoleCoeffs ex_kde 1 1 1 1 0 2 [0] [0] (ex_store 0))))) = [1]
   \<and> col (heap (snd (snd (ComputeMultipoleCoeffs ex_kde 1 1 1 1 0 2 [0] [0] (ex_store 0)))) 1) 0
       = [0]
   \<and> fst (ComputeMultipoleCoeffs ex_kde 1 1 1 1 0 2 [0] [0]
            (snd (snd (ComputeMultipoleCoeffs ex_kde 1 1 1 1 0 2 [0] [0] (ex_store 0)))))
       = Computed"
  by (simp only: CMC_ex CMC_ex2 fst_conv snd_conv) (simp add: ex_store_def col_def)



section \<open>The search for the truncation order\<close>

text \<open>A round of the search that starts below the largest value of the counter: the
  value of \<^verbatim>\<open>ret2\<close> is the bound at the next order.\<close>

lemma truncation_search_step:
  assumes "int k < INDEX_MAX"
  shows "truncation_search two_r dim' ret tau' (int k, fact k, two_r ^ k) =
     (if truncation_bound two_r dim' ret (Suc k) > tau'
      then truncation_search two_r dim' ret tau' (int (Suc k), fact (Suc k), two_r ^ Suc k)
      else Some (int (Suc k)))"
proof -
  have f: "fact k * real_of_int (int (Suc k)) = (fact (Suc k) :: real)"
    by (simp add: algebra_simps)
  have i: "int k + 1 = int (Suc k)" by simp
  have p: "two_r ^ k * two_r = two_r ^ Suc k" by simp
  have n: "(INDEX_MAX \<le> int k) = False" using assms by simp
  show ?thesis
    by (subst truncation_search.simps)
       (simp only: n if_False Let_def f i p truncation_bound_def)
qed

lemma truncation_search_top:
  "INDEX_MAX \<le> ip \<Longrightarrow> truncation_search two_r dim' ret tau' (ip, f, r) = None"
  by (subst truncation_search.simps) simp

lemma truncation_search_reaches:
  assumes "truncation_bound two_r dim' ret (Suc (k + n)) \<le> tau'"
    and "\<forall>j<n. truncation_bound two_r dim' ret (Suc (k + j)) > tau'"
    and "int (Suc (k + n)) \<le> INDEX_MAX"
  shows "truncation_search two_r dim' ret tau' (int k, fact k, two_r ^ k) = Some (int (Suc (k + n)))"
  using assms
proof (induction n arbitrary: k)
  case 0
  then have "int k < INDEX_MAX" by simp
  then show ?case using 0 by (subst truncation_search_step) simp_all
next
  case (Suc n)
  have lt: "int k < INDEX_MAX" using Suc.prems(3) by simp
  have gt: "truncation_bound two_r dim' ret (Suc k) > tau'"
    using Suc.prems(2)[rule_format, of 0] by simp
  have a: "truncation_bound two_r dim' ret (Suc (Suc k + n)) \<le> tau'"
    using Suc.prems(1) by simp
  have b: "\<forall>j<n. truncation_bound two_r dim' ret (Suc (Suc k + j)) > tau'"
  proof (intro allI impI)
    fix j assume "j < n"
    then have "Suc j < Suc n" by simp
    from Suc.prems(2)[rule_format, OF this] show "tau' < truncation_bound two_r dim' ret (Suc (Suc k + j))"
      by simp
  qed
  have c: "int (Suc (Suc k + n)) \<le> INDEX_MAX" using Suc.prems(3) by simp
  from Suc.IH[OF a b c] gt show ?case
    by (subst truncation_search_step[OF lt]) simp
qed

text \<open>When the bound stays above the tolerance at every order that the counter can
  hold, the search goes through all of them and ends in the overflow of the
  counter.\<close>

lemma truncation_search_overflows:
  assumes "\<forall>j. k < j \<and> int j \<le> INDEX_MAX \<longrightarrow> tau' < truncation_bound two_r dim' ret j"
    and "int k \<le> INDEX_MAX"
  shows "truncation_search two_r dim' ret tau' (int k, fact k, two_r ^ k) = None"
  using assms
proof (induction "nat (INDEX_MAX - int k)" arbitrary: k)
  case 0
  then have "INDEX_MAX \<le> int k" by simp
  then show ?case by (rule truncation_search_top)
next
  case (Suc m)
  have lt: "int k < INDEX_MAX" using Suc.hyps(2) by linarith
  have gt: "tau' < truncation_bound two_r dim' ret (Suc k)"
    using Suc.prems(1)[rule_format, of "Suc k"] lt by simp
  have m: "m = nat (INDEX_MAX - int (Suc k))" using Suc.hyps(2) by simp
  have a: "\<forall>j. Suc k < j \<and> int j \<le> INDEX_MAX \<longrightarrow> tau' < truncation_bound two_r dim' ret j"
    using Suc.prems(1) by simp
  have b: "int (Suc k) \<le> INDEX_MAX" using lt by simp
  from Suc.hyps(1)[OF m a b] gt show ?case
    by (subst truncation_search_step[OF lt]) simp
qed

text \<open>Claim C5, as amended.  The search has no largest order of its own and no error
  exit; the arithmetic on the \<^verbatim>\<open>double\<close>s taken as exact, its result from the start of
  \<^verbatim>\<open>FastGaussTransformPreprocess_\<close> (order 0, factorial 1, power 1) is this: when some
  order from 1 to \<open>INDEX_MAX\<close>, the largest value of the counter, has an error bound
  of at most the tolerance, the search returns the first order from 1 on with such a
  bound; when none has, it runs through all these orders and ends in the overflow
  of its counter (\<^term>\<open>None\<close>), where the source reports nothing.\<close>

theorem truncation_search_first_order:
  "truncation_search two_r dim' ret tau' (0, 1, 1) =
     (if \<exists>p. 1 \<le> p \<and> int p \<le> INDEX_MAX \<and> truncation_bound two_r dim' ret p \<le> tau'
      then Some (int (LEAST p. 1 \<le> p \<and> truncation_bound two_r dim' ret p \<le> tau'))
      else None)"
proof (cases "\<exists>p. 1 \<le> p \<and> int p \<le> INDEX_MAX \<and> truncation_bound two_r dim' ret p \<le> tau'")
  case True
  then obtain p0 where p0: "1 \<le> p0" "int p0 \<le> INDEX_MAX" "truncation_bound two_r dim' ret p0 \<le> tau'"
    by blast
  define m where "m = (LEAST p. 1 \<le> p \<and> truncation_bound two_r dim' ret p \<le> tau')"
  have ex: "1 \<le> p0 \<and> truncation_bound two_r dim' ret p0 \<le> tau'" using p0 by simp
  have Pm: "1 \<le> m \<and> truncation_bound two_r dim' ret m \<le> tau'"
    unfolding m_def using ex by (rule LeastI)
  have "m \<le> p0" unfolding m_def using ex by (rule Least_le)
  then have mb: "int m \<le> INDEX_MAX" using p0(2) by simp
  have below: "\<not> (1 \<le> q \<and> truncation_bound two_r dim' ret q \<le> tau')" if q: "q < m" for q
    using not_less_Least[of q "\<lambda>p. 1 \<le> p \<and> truncation_bound two_r dim' ret p \<le> tau'"] q
    unfolding m_def by simp
  obtain n where n: "m = Suc n" using Pm by (cases m) auto
  have a: "truncation_bound two_r dim' ret (Suc (0 + n)) \<le> tau'" using Pm n by simp
  have b: "\<forall>j<n. truncation_bound two_r dim' ret (Suc (0 + j)) > tau'"
  proof (intro allI impI)
    fix j assume "j < n"
    then have "Suc j < m" using n by simp
    from below[OF this] show "tau' < truncation_bound two_r dim' ret (Suc (0 + j))" by simp
  qed
  have c: "int (Suc (0 + n)) \<le> INDEX_MAX" using mb n by simp
  have "truncation_search two_r dim' ret tau' (int 0, fact 0, two_r ^ 0) = Some (int (Suc (0 + n)))"
    using a b c by (rule truncation_search_reaches)
  then have "truncation_search two_r dim' ret tau' (0, 1, 1) = Some (int m)" using n by simp
  then show ?thesis using True by (simp only: if_True m_def)
next
  case False
  have a: "\<forall>j. 0 < j \<and> int j \<le> INDEX_MAX \<longrightarrow> tau' < truncation_bound two_r dim' ret j"
  proof (intro allI impI)
    fix j assume j: "0 < j \<and> int j \<le> INDEX_MAX"
    show "tau' < truncation_bound two_r dim' ret j"
    proof (rule ccontr)
      assume "\<not> tau' < truncation_bound two_r dim' ret j"
      then have "1 \<le> j \<and> int j \<le> INDEX_MAX \<and> truncation_bound two_r dim' ret j \<le> tau'"
        using j by simp
      then show False using False by blast
    qed
  qed
  have b: "int 0 \<le> INDEX_MAX" by (simp add: INDEX_MAX_def)
  have "truncation_search two_r dim' ret tau' (int 0, fact 0, two_r ^ 0) = None"
    using a b by (rule truncation_search_overflows)
  then have "truncation_search two_r dim' ret tau' (0, 1, 1) = None" by simp
  then show ?thesis using False by (simp only: if_False)
qed

text \<open>The bounds of the orders 1 to 4 at the convergence ratio \<open>1/2\<close> in one dimension,
  where \<^verbatim>\<open>ret\<close> is 4: they are \<open>3\<close>, \<open>7 / (4 sqrt 2)\<close>, \<open>15 / (16 sqrt 6)\<close> and
  \<open>31 / (64 sqrt 24)\<close>, and only the last is at most \<open>1/10\<close>.\<close>

lemma truncation_bound_half:
  "truncation_bound (1 / 2) (Suc 0) 4 (Suc 0) > 1 / 10"
  "truncation_bound (1 / 2) (Suc 0) 4 (Suc (Suc 0)) > 1 / 10"
  "truncation_bound (1 / 2) (Suc 0) 4 (Suc (Suc (Suc 0))) > 1 / 10"
  "truncation_bound (1 / 2) (Suc 0) 4 (Suc (Suc (Suc (Suc 0)))) \<le> 1 / 10"
proof -
  show "truncation_bound (1 / 2) (Suc 0) 4 (Suc 0) > 1 / 10"
    by (simp add: truncation_bound_def Let_def)
  have e2: "truncation_bound (1 / 2) (Suc 0) 4 (Suc (Suc 0)) = 7 / (4 * sqrt 2)"
    by (simp add: truncation_bound_def Let_def)
  have s2: "sqrt 2 \<le> 2" by (rule real_le_lsqrt) simp_all
  have p2: "0 < sqrt (2 :: real)" by simp
  have "(1 / 10 :: real) < 7 / 8" by simp
  also have "\<dots> \<le> 7 / (4 * sqrt 2)" using s2 p2 by (intro divide_left_mono) simp_all
  finally show "truncation_bound (1 / 2) (Suc 0) 4 (Suc (Suc 0)) > 1 / 10"
    by (simp only: e2)
  have e3: "truncation_bound (1 / 2) (Suc 0) 4 (Suc (Suc (Suc 0))) = 15 / (16 * sqrt 6)"
    by (simp add: truncation_bound_def Let_def)
  have s6: "sqrt 6 \<le> 3" by (rule real_le_lsqrt) simp_all
  have p6: "0 < sqrt (6 :: real)" by simp
  have "(1 / 10 :: real) < 15 / 48" by simp
  also have "\<dots> \<le> 15 / (16 * sqrt 6)" using s6 p6 by (intro divide_left_mono) simp_all
  finally show "truncation_bound (1 / 2) (Suc 0) 4 (Suc (Suc (Suc 0))) > 1 / 10"
    by (simp only: e3)
  have e4: "truncation_bound (1 / 2) (Suc 0) 4 (Suc (Suc (Suc (Suc 0)))) = 31 / (64 * sqrt 24)"
    by (simp add: truncation_bound_def Let_def)
  have s24: "(155 / 32 :: real) \<le> sqrt 24" by (rule real_le_rsqrt) (simp add: power2_eq_square)
  have "31 / (64 * sqrt 24) \<le> 31 / (64 * (155 / 32 :: real))"
    using s24 by (intro divide_left_mono) simp_all
  also have "\<dots> = 1 / 10" by simp
  finally show "truncation_bound (1 / 2) (Suc 0) 4 (Suc (Suc (Suc (Suc 0)))) \<le> 1 / 10"
    by (simp only: e4)
qed

theorem truncation_search_first_order_witness:
  "truncation_search (1 / 2) (Suc 0) 4 (1 / 10) (0, 1, 1) = Some 4"
proof -
  let ?P = "\<lambda>p. 1 \<le> p \<and> truncation_bound (1 / 2) (Suc 0) 4 p \<le> 1 / 10"
  have four: "Suc (Suc (Suc (Suc 0))) = 4" by simp
  have P4: "?P 4" using truncation_bound_half(4) by (simp only: four) simp
  have least: "(LEAST p. ?P p) = 4"
  proof (rule Least_equality)
    show "?P 4" by (rule P4)
    fix q assume q: "?P q"
    show "4 \<le> q"
    proof (rule ccontr)
      assume "\<not> 4 \<le> q"
      then have "q = Suc 0 \<or> q = Suc (Suc 0) \<or> q = Suc (Suc (Suc 0))" using q by auto
      then show False using q truncation_bound_half(1-3) by auto
    qed
  qed
  have ex: "\<exists>p. 1 \<le> p \<and> int p \<le> INDEX_MAX \<and> truncation_bound (1 / 2) (Suc 0) 4 p \<le> 1 / 10"
    by (rule exI[of _ 4]) (use P4 in \<open>simp add: INDEX_MAX_def\<close>)
  show ?thesis
    using truncation_search_first_order[of "1 / 2" "Suc 0" 4 "1 / 10"] ex least
    by (simp only: if_True) simp
qed

text \<open>In exact arithmetic the bound tends to 0 when the convergence ratio is in
  \<open>[0, 1)\<close>, so for a positive tolerance some order meets it.\<close>

lemma truncation_bound_tendsto:
  assumes "0 \<le> two_r" "two_r < 1"
  shows "(\<lambda>p. truncation_bound two_r dim' ret p) \<longlonglongrightarrow> 0"
proof -
  have r: "(\<lambda>p. two_r ^ p) \<longlonglongrightarrow> 0"
    using assms by (rule LIMSEQ_realpow_zero)
  have ff: "(\<lambda>p. (1 - two_r ^ p) * (1 - two_r ^ p)) \<longlonglongrightarrow> (1 - 0) * (1 - 0)"
    by (intro tendsto_intros r)
  have num: "(\<lambda>p. two_r ^ p * (2 - two_r ^ p)) \<longlonglongrightarrow> 0 * (2 - 0)"
    by (intro tendsto_intros r)
  have sf: "(\<lambda>p. two_r ^ p * (2 - two_r ^ p) / sqrt (fact p)) \<longlonglongrightarrow> 0"
  proof (rule tendsto_0_le[where f = "\<lambda>p. \<bar>two_r ^ p * (2 - two_r ^ p)\<bar>" and K = 1])
    show "\<forall>\<^sub>F p in sequentially.
            norm (two_r ^ p * (2 - two_r ^ p) / sqrt (fact p)) \<le> norm \<bar>two_r ^ p * (2 - two_r ^ p)\<bar> * 1"
    proof (rule always_eventually, rule allI)
      fix p :: nat
      have "(1::real) \<le> fact p" by (rule fact_ge_1)
      then have "1 \<le> sqrt (fact p :: real)" by simp
      then have "\<bar>two_r ^ p * (2 - two_r ^ p)\<bar> / sqrt (fact p) \<le> \<bar>two_r ^ p * (2 - two_r ^ p)\<bar> / 1"
        by (intro divide_left_mono) simp_all
      then show "norm (two_r ^ p * (2 - two_r ^ p) / sqrt (fact p)) \<le> norm \<bar>two_r ^ p * (2 - two_r ^ p)\<bar> * 1"
        by (simp add: abs_mult)
    qed
    show "(\<lambda>p. \<bar>two_r ^ p * (2 - two_r ^ p)\<bar>) \<longlonglongrightarrow> 0"
      using num by (simp add: tendsto_rabs_zero_iff)
  qed
  have "(\<lambda>p. ret * (((1 - two_r ^ p) * (1 - two_r ^ p) + two_r ^ p * (2 - two_r ^ p) / sqrt (fact p)) ^ dim'
                    - ((1 - two_r ^ p) * (1 - two_r ^ p)) ^ dim'))
        \<longlonglongrightarrow> ret * (((1 - 0) * (1 - 0) + 0) ^ dim' - ((1 - 0) * (1 - 0)) ^ dim')"
    by (intro tendsto_intros ff sf)
  then show ?thesis by (simp add: truncation_bound_def Let_def)
qed

lemma truncation_bound_eventually:
  assumes "0 \<le> two_r" "two_r < 1" "0 < tau'"
  shows "\<exists>n. truncation_bound two_r dim' ret (Suc n) \<le> tau'
             \<and> (\<forall>j<n. truncation_bound two_r dim' ret (Suc j) > tau')"
proof -
  have "\<forall>\<^sub>F p in sequentially. truncation_bound two_r dim' ret p < tau'"
    using order_tendstoD(2)[OF truncation_bound_tendsto[OF assms(1,2)] assms(3)] .
  then obtain N where N: "\<forall>p\<ge>N. truncation_bound two_r dim' ret p < tau'"
    by (auto simp: eventually_sequentially)
  then have ex: "\<exists>n. truncation_bound two_r dim' ret (Suc n) \<le> tau'"
    by (intro exI[of _ N]) (simp add: less_imp_le)
  define n where "n = (LEAST n. truncation_bound two_r dim' ret (Suc n) \<le> tau')"
  have 1: "truncation_bound two_r dim' ret (Suc n) \<le> tau'"
    unfolding n_def using ex by (rule LeastI_ex)
  have 2: "truncation_bound two_r dim' ret (Suc j) > tau'" if "j < n" for j
    using not_less_Least[of j "\<lambda>n. truncation_bound two_r dim' ret (Suc n) \<le> tau'"] that
    unfolding n_def by simp
  from 1 2 show ?thesis by blast
qed

text \<open>When the convergence ratio \<open>two_r\<close> is in \<open>[0, 1)\<close> and the tolerance is positive,
  the search that starts as in \<^verbatim>\<open>FastGaussTransformPreprocess_\<close> (order 0, factorial 1,
  power 1) returns, and its result is the first order \<open>p \<ge> 1\<close> whose error bound is at
  most the tolerance.\<close>

lemma DBL_MAX_pos: "0 < DBL_MAX"
  by (simp add: DBL_MAX_def)

lemma truncation_bound_ratio_0:
  "0 < j \<Longrightarrow> truncation_bound 0 (Suc 0) 1 j = 0"
  by (simp add: truncation_bound_def Let_def)

text \<open>Claim C5 as stated fails: with the one reference point of the smallest instance
  (convergence ratio 0), the bandwidth 1 and the tolerance \<open>-1\<close>, which \<^verbatim>\<open>Init\<close>
  accepts, the error bound is 0 at every order, above the tolerance: no largest
  order stops the search and nothing is reported; it goes through every order up
  to \<open>INDEX_MAX\<close> and overflows its counter.\<close>

theorem Preprocess_counter_overflow:
  "FastGaussTransformPreprocess
     (Init \<lparr>kde_bandwidth = 1, kde_absolute_error = - 1\<rparr> ex_kde
        \<lparr>n_rows = 1, n_cols = 1, mem = [0]\<rparr> \<lparr>n_rows = 1, n_cols = 1, mem = [0]\<rparr>)
     [0] [0] [0] = None"
proof -
  have a: "\<forall>j. 0 < j \<and> int j \<le> INDEX_MAX \<longrightarrow> - 1 < truncation_bound 0 (Suc 0) 1 j"
    by (simp add: truncation_bound_ratio_0)
  have b: "int 0 \<le> INDEX_MAX" by (simp add: INDEX_MAX_def)
  have "truncation_search 0 (Suc 0) 1 (- 1) (int 0, fact 0, 0 ^ 0) = None"
    using a b by (rule truncation_search_overflows)
  then have "truncation_search 0 (Suc 0) 1 (- 1) (0, 1, 1) = None" by simp
  then show ?thesis
    using DBL_MAX_pos
    by (simp add: FastGaussTransformPreprocess_def Preprocess_bounds_def Preprocess_sides_def
        Init_def GaussianKernel_Init_def Let_def elem_def to_index_t_def wrap_index_def
        INDEX_MIN_def INDEX_MAX_def)
qed


section \<open>Initialisation\<close>

text \<open>Claim C6, as amended.  \<^verbatim>\<open>Init\<close> validates nothing: for every bandwidth, every
  tolerance and every pair of point sets it stores the square of the bandwidth, the
  tolerance and the two sets as given, and sizes the density vector to the number
  of query columns.  A query set without columns therefore gives an empty density
  vector and is not an error, nor is any other input.\<close>

theorem Init_no_validation:
  "kernel (Init io s qset' rset') = \<lparr>bandwidth_sq = kde_bandwidth io * kde_bandwidth io\<rparr>
   \<and> tau (Init io s qset' rset') = kde_absolute_error io
   \<and> qset (Init io s qset' rset') = qset'
   \<and> rset (Init io s qset' rset') = rset'
   \<and> length (densities (Init io s qset' rset')) = n_cols qset'"
  by (simp add: Init_def Let_def GaussianKernel_Init_def set_size_def new_vec_def)

lemma bad_search: "truncation_search 0 (Suc 0) 1 2 (0, 1, 1) = Some 1"
  by (subst truncation_search.simps) (simp add: INDEX_MAX_def)

text \<open>Claim C6 as stated fails: with the bandwidth \<open>-1\<close>, the tolerance 2, a query
  set of dimension 2 and a reference set of dimension 1, \<^verbatim>\<open>Init\<close> returns an object on
  which the grid planning runs to its end: one box, truncation order 1.\<close>

theorem Init_accepts_invalid:
  "map_option (\<lambda>(interaction_radius, out). out)
     (FastGaussTransformPreprocess
        (Init \<lparr>kde_bandwidth = - 1, kde_absolute_error = 2\<rparr> ex_kde
           \<lparr>n_rows = 2, n_cols = 1, mem = [0, 0]\<rparr> \<lparr>n_rows = 1, n_cols = 1, mem = [0]\<rparr>)
        [0] [0] [0])
   = Some ([1], [0], [0], 1, 1)"
  using DBL_MAX_pos
  by (simp add: FastGaussTransformPreprocess_def Preprocess_bounds_def Preprocess_sides_def
      Init_def GaussianKernel_Init_def Let_def elem_def to_index_t_def wrap_index_def
      INDEX_MIN_def INDEX_MAX_def bad_search)


section \<open>Normalisation\<close>








section \<open>The whole transform on an instance with two boxes\<close>

lemma wrap_index_small: "- 1000 \<le> x \<Longrightarrow> x \<le> 1000 \<Longrightarrow> wrap_index x = x"
  by (rule wrap_index_id) (simp_all add: INDEX_MIN_def INDEX_MAX_def)

lemma to_index_t_small:
  "- 1000 \<le> x \<Longrightarrow> x \<le> 1000 \<Longrightarrow> to_index_t x = (if 0 \<le> x then \<lfloor>x\<rfloor> else \<lceil>x\<rceil>)"
proof -
  assume a: "- 1000 \<le> x" "x \<le> 1000"
  have "- 1000 \<le> \<lfloor>x\<rfloor>" "\<lfloor>x\<rfloor> \<le> 1000" "- 1000 \<le> \<lceil>x\<rceil>" "\<lceil>x\<rceil> \<le> 1000"
    using a by (simp_all add: le_floor_iff floor_le_iff ceiling_le_iff le_ceiling_iff)
  then show ?thesis
    by (simp add: to_index_t_def Let_def INDEX_MIN_def INDEX_MAX_def)
qed

lemma ex2_kde_simps:
  "qset ex2_kde = \<lparr>n_rows = 1, n_cols = 1, mem = [1]\<rparr>"
  "rset ex2_kde = \<lparr>n_rows = 1, n_cols = 2, mem = [0, 1]\<rparr>"
  "kernel ex2_kde = \<lparr>bandwidth_sq = 1\<rparr>"
  "tau ex2_kde = 1 / 10"
  "densities ex2_kde = [0]"
  by (simp_all add: ex2_kde_def Init_def Let_def GaussianKernel_Init_def set_size_def ex_kde_def)

lemma ex2_bounds: "Preprocess_bounds ex2_kde [0] = ([0], [1])"
  using DBL_MAX_pos
  by (simp add: Preprocess_bounds_def ex2_kde_simps Let_def elem_def numeral_2_eq_2)

lemma ex2_sides: "Preprocess_sides (Suc 0) 1 [0] [1] [0] [0] = ([2], 2, 1 / 4, [1 / 2])"
  by (simp add: Preprocess_sides_def Let_def to_index_t_small wrap_index_small)

text \<open>The convergence ratio of this grid is \<open>1/2\<close>, and the search returns the order
  4.\<close>

lemma ex2_search: "truncation_search (1 / 2) (Suc 0) 4 (1 / 10) (0, 1, 1) = Some 4"
proof -
  have a: "truncation_bound (1 / 2) (Suc 0) 4 (Suc (0 + 3)) \<le> 1 / 10"
    using truncation_bound_half(4) by (simp add: numeral_3_eq_3)
  have b: "\<forall>j<3. truncation_bound (1 / 2) (Suc 0) 4 (Suc (0 + j)) > 1 / 10"
  proof (intro allI impI)
    fix j :: nat assume "j < 3"
    then have "j = 0 \<or> j = Suc 0 \<or> j = Suc (Suc 0)" by auto
    then show "1 / 10 < truncation_bound (1 / 2) (Suc 0) 4 (Suc (0 + j))"
      using truncation_bound_half(1-3) by auto
  qed
  have c: "int (Suc (0 + 3)) \<le> INDEX_MAX" by (simp add: INDEX_MAX_def)
  have "truncation_search (1 / 2) (Suc 0) 4 (1 / 10) (int 0, fact 0, (1 / 2) ^ 0)
        = Some (int (Suc (0 + 3)))"
    using a b c by (rule truncation_search_reaches)
  then show ?thesis by simp
qed

lemma ex2_preprocess:
  "FastGaussTransformPreprocess ex2_kde [0] [0] [0]
     = Some (sqrt (- 2 * ln (1 / 10)), [2], [1 / 2], [0], 2, 4)"
  by (simp add: FastGaussTransformPreprocess_def ex2_kde_simps ex2_bounds ex2_sides Let_def
      ex2_search)

text \<open>On two lists, one per box, \<^verbatim>\<open>Assign_\<close> puts the reference point 0 into box 0
  and the reference point 1 and the query into box 1.\<close>

lemma ex2_boxnum:
  "Assign_boxnum (rset ex2_kde) (Suc 0) 0 [2] [1 / 2] [0] = 0"
  "Assign_boxnum (rset ex2_kde) (Suc 0) (Suc 0) [2] [1 / 2] [0] = 1"
  "Assign_boxnum (qset ex2_kde) (Suc 0) 0 [2] [1 / 2] [0] = 1"
  by (simp_all add: Assign_boxnum_def ex2_kde_simps elem_def Let_def to_index_t_small
      wrap_index_small)

lemma ex2_dims:
  "n_rows (qset ex2_kde) = Suc 0" "n_cols (qset ex2_kde) = Suc 0"
  "n_cols (rset ex2_kde) = Suc (Suc 0)"
  by (simp_all add: ex2_kde_simps)

lemma ex2_assign:
  "Assign ex2_kde 2 [2] [1 / 2] [0] center [[], []] [[], []] = (center, [[], [0]], [[0], [1]])"
  by (simp add: Assign_def ex2_boxnum ex2_dims Let_def)

text \<open>Both boxes hold one reference point, so both are in the direct regime; the
  neighbour list of either is \<open>[0]\<close>, and box 0 holds no query.  Nothing is added to
  the density of the query, which is in box 1.\<close>

lemma ex2_transform:
  "GaussTransform 2 nterms 2 [2] [1 / 2] [0] 0 center [[], []] [[], []] 1 (ex2_kde, st)
   = (center, [[], [0]], [[0], [1]], ex2_kde, st)"
  by (simp add: GaussTransform_def FinalizeSum_def EvaluateLocalExpansionForAllQueries_def
      ex2_assign ex2_kde_simps MakeNeighbors_const pow_index_def to_index_t_1 wrap_index_small
      Let_def numeral_2_eq_2)

text \<open>The brute-force estimate at the query is \<open>(1 + exp (-1/2)) / (2 c)\<close> for the
  normalization constant \<open>c\<close>: more than \<open>1/10\<close> away from 0 for every \<open>c\<close> up to 5 (the
  Gaussian constant in one dimension with bandwidth 1 is \<open>sqrt (2 pi)\<close>, about 2.51).\<close>

lemma ex2_brute: "bruteForceEstimate c ex2_kde 0 = (1 + exp (- 1 / 2)) / (2 * c)"
  by (simp add: bruteForceEstimate_def ex2_kde_simps col_def DistanceSqEuclidean_def
      numeral_2_eq_2 add.commute)

lemma ex2_gap:
  assumes "0 < c" "c \<le> 5"
  shows "\<bar>0 - bruteForceEstimate c ex2_kde 0\<bar> > 1 / 10"
proof -
  have "(0::real) < exp (- 1 / 2)" by simp
  then have "1 < 1 + exp (- 1 / 2 :: real)" by simp
  then have "1 / (2 * c) < (1 + exp (- 1 / 2)) / (2 * c)"
    using assms(1) by (simp add: divide_strict_right_mono)
  moreover have "1 / 10 \<le> 1 / (2 * c)" using assms by (simp add: field_simps)
  ultimately have "1 / 10 < (1 + exp (- 1 / 2)) / (2 * c)" by linarith
  moreover have "0 < (1 + exp (- 1 / 2 :: real)) / (2 * c)" using assms(1) by (simp add: add_pos_pos)
  ultimately have "\<bar>0 - (1 + exp (- 1 / 2)) / (2 * c)\<bar> > 1 / 10" by linarith
  then show ?thesis by (simp only: ex2_brute)
qed

text \<open>Claim C1, at the instance with two boxes: reference points 0 and 1, query point
  1, bandwidth 1, tolerance \<open>1/10\<close>.  The grid planning returns the grid of two boxes
  with some truncation order; with that grid and order, containers of the sizes
  that \<^verbatim>\<open>Compute\<close> reserves and zero coefficient matrices, \<^verbatim>\<open>GaussTransform_\<close> followed
  by \<^verbatim>\<open>NormalizeDensities_\<close> leaves the density estimate of the query at 0, whatever
  the normalization constant.  A reference point sits on the query: the brute-force
  estimate is \<open>(1 + exp (-1/2)) / (2 c)\<close>.\<close>

theorem GaussTransform_failing_input:
  "\<exists>interaction_radius nterms.
     FastGaussTransformPreprocess ex2_kde [0] [0] [0]
       = Some (interaction_radius, [2], [1 / 2], [0], 2, nterms)
     \<and> densities (NormalizeDensities CalcNormConstant
          (fst (snd (snd (snd
             (GaussTransform (2 * bandwidth_sq (kernel ex2_kde)) nterms 2 [2] [1 / 2] [0] 0
                (new_mat 1 2) [[], []] [[], []] 1 (ex2_kde, ex2_store (nat nterms)))))))) = [0]"
proof -
  obtain interaction_radius nterms where
    p: "FastGaussTransformPreprocess ex2_kde [0] [0] [0]
          = Some (interaction_radius, [2], [1 / 2], [0], 2, nterms)"
    using ex2_preprocess by blast
  have d: "2 * bandwidth_sq (kernel ex2_kde) = 2" by (simp add: ex2_kde_simps)
  have "densities (NormalizeDensities CalcNormConstant
          (fst (snd (snd (snd
             (GaussTransform (2 * bandwidth_sq (kernel ex2_kde)) nterms 2 [2] [1 / 2] [0] 0
                (new_mat 1 2) [[], []] [[], []] 1 (ex2_kde, ex2_store (nat nterms)))))))) = [0]"
    unfolding d ex2_transform
    by (simp add: NormalizeDensities_def ex2_kde_simps Let_def)
  with p show ?thesis by blast
qed

end
